theory Spec2Isabelle
  imports Main "HOL-Library.Word"
begin

section \<open>Exceptions\<close>

text \<open>
  The library throws three kinds of exception: \<open>SphinxQL::Exception\<close> (a
  \<open>std::runtime_error\<close>), its subclass \<open>SphinxQL::TimeoutException\<close>, and the standard
  \<open>std::out_of_range\<close>.  Each carries its message.  A function that may throw returns
  \<open>exn + 'a\<close>, with \<open>Inl\<close> for the exception.
\<close>

datatype exn = Exception string | TimeoutException string | out_of_range string

definition is_timeout :: "exn \<Rightarrow> bool" where
  "is_timeout e = (case e of TimeoutException _ \<Rightarrow> True | _ \<Rightarrow> False)"

text \<open>\<open>std::to_string\<close> on an unsigned value: its decimal digits.\<close>

definition digit_char :: "nat \<Rightarrow> char" where
  "digit_char d = ''0123456789'' ! d"

function to_string :: "nat \<Rightarrow> string" where
  "to_string n =
     (if n < 10 then [digit_char n] else to_string (n div 10) @ [digit_char (n mod 10)])"
  by pat_completeness auto
termination
  by (relation "measure id") auto

declare to_string.simps [simp del]

section \<open>Row\<close>

text \<open>
  \<open>class Row\<close> (sphinxql.h).  \<open>origin\<close> records whether the pointer to the owning Result
  is set; the Result itself is passed to the one member that dereferences it.  The
  member \<open>data\<close>, here \<open>row_data\<close>, is the array \<open>mysql_fetch_row\<close> returned (a column
  is \<open>None\<close> for SQL NULL), empty for the null pointer.  The member \<open>fields\<close> is called
  \<open>row_fields\<close> here.
\<close>

record Row =
  origin :: bool
  row_data :: "string option list"
  row_fields :: "32 word"
  fieldIter :: "32 word"

definition Row_ctor :: Row where
  "Row_ctor = \<lparr>origin = False, row_data = [], row_fields = 0, fieldIter = 0\<rparr>"

definition Row_size :: "Row \<Rightarrow> 32 word" where
  "Row_size row = row_fields row"

definition checkBounds :: "Row \<Rightarrow> 32 word \<Rightarrow> exn + unit" where
  "checkBounds row index =
     (if index \<ge> row_fields row
      then Inl (out_of_range (''Row column out of range: '' @ to_string (unat index)))
      else Inr ())"

text \<open>\<open>Row::operator[]\<close>.\<close>

definition operator_index :: "Row \<Rightarrow> 32 word \<Rightarrow> exn + string option" where
  "operator_index row index =
     (case checkBounds row index of
        Inl e \<Rightarrow> Inl e
      | Inr _ \<Rightarrow> Inr (row_data row ! unat index))"

subsection \<open>Decoding a column\<close>












text \<open>The specialisation for \<open>std::string\<close>: a copy of the column.\<close>

definition convertResult_string :: "string option \<Rightarrow> string \<Rightarrow> string" where
  "convertResult_string data defaultValue =
     (case data of None \<Rightarrow> defaultValue | Some s \<Rightarrow> s)"

text \<open>
  The primary template of \<open>Row::convertResult\<close> is declared in the header and defined in
  sphinxql.cc only.  Its first statement, \<open>std::stringstream ss(std::string(data));\<close>,
  declares a function \<open>ss\<close>, so \<open>ss >> res\<close> is ill-formed in every instantiation, and no
  instantiation exists for a caller to link against.  Every \<open>convertResult<T>\<close> a program
  calls is one of the specialisations above; the primary template computes nothing and
  has no definition here.
\<close>

text \<open>
  \<open>Row::operator>>\<close>: \<open>checkBounds(fieldIter); value = convertResult(data[fieldIter++],
  value)\<close>.  \<open>conv\<close> is \<open>convertResult\<close> at the type of \<open>value\<close>.  When the bounds check
  throws, neither the row nor the destination has changed.
\<close>

definition operator_shr ::
  "(string option \<Rightarrow> 'a \<Rightarrow> 'a) \<Rightarrow> Row \<Rightarrow> 'a \<Rightarrow> exn + ('a \<times> Row)" where
  "operator_shr conv row v =
     (case checkBounds row (fieldIter row) of
        Inl e \<Rightarrow> Inl e
      | Inr _ \<Rightarrow>
          Inr (conv (row_data row ! unat (fieldIter row)) v,
               row\<lparr>fieldIter := fieldIter row + 1\<rparr>))"

text \<open>\<open>n\<close> successive applications \<open>row >> value\<close> to the same destination.\<close>

fun shr_n :: "(string option \<Rightarrow> 'a \<Rightarrow> 'a) \<Rightarrow> nat \<Rightarrow> Row \<Rightarrow> 'a \<Rightarrow> exn + ('a \<times> Row)" where
  "shr_n conv 0 row v = Inr (v, row)"
| "shr_n conv (Suc n) row v =
     (case operator_shr conv row v of
        Inl e \<Rightarrow> Inl e
      | Inr (v', row') \<Rightarrow> shr_n conv n row' v')"

section \<open>The client library\<close>

text \<open>
  The MySQL client library is outside the repository.  A stored result set
  (\<open>MYSQL_RES\<close>) is the data its accessors return: \<open>mysql_num_fields\<close>,
  \<open>mysql_fetch_fields\<close> (the names of the \<open>MYSQL_FIELD\<close> array, \<open>None\<close> for a null
  pointer), the rows \<open>mysql_fetch_row\<close> has yet to hand out, and \<open>mysql_num_rows\<close>.
\<close>

record MYSQL_RES =
  field_count :: "32 word"
  field_array :: "string list option"
  row_queue :: "string option list list"
  row_count :: "64 word"

definition mysql_num_fields :: "MYSQL_RES \<Rightarrow> 32 word" where
  "mysql_num_fields res = field_count res"

definition mysql_fetch_fields :: "MYSQL_RES \<Rightarrow> string list option" where
  "mysql_fetch_fields res = field_array res"

definition mysql_num_rows :: "MYSQL_RES \<Rightarrow> 64 word" where
  "mysql_num_rows res = row_count res"

definition mysql_fetch_row :: "MYSQL_RES \<Rightarrow> string option list option \<times> MYSQL_RES" where
  "mysql_fetch_row res =
     (case row_queue res of
        [] \<Rightarrow> (None, res)
      | r # rs \<Rightarrow> (Some r, res\<lparr>row_queue := rs\<rparr>))"

text \<open>
  The operations on a connection handle (\<open>MYSQL *\<close>) are parameters of the model: a
  record of functions over a type \<open>'c\<close> of handle states.  Each function returns what the
  C function returns together with the handle's new state.  \<open>mysql_real_connect\<close>
  returns whether its result is non-null; \<open>mysql_error\<close> also accepts the null handle.
  \<open>mysql_errno\<close> is the client error code of the last failed call on the handle; the
  repository's code never calls it.
\<close>

datatype mysql_option =
  MYSQL_OPT_PROTOCOL | MYSQL_OPT_CONNECT_TIMEOUT | MYSQL_OPT_WRITE_TIMEOUT | MYSQL_OPT_READ_TIMEOUT

record 'c mysql_api =
  mysql_options :: "'c \<Rightarrow> mysql_option \<Rightarrow> 32 word \<Rightarrow> 'c"
  mysql_real_connect :: "'c \<Rightarrow> string option \<Rightarrow> int \<Rightarrow> string \<Rightarrow> bool \<times> 'c"
  mysql_error :: "'c option \<Rightarrow> string"
  mysql_errno :: "'c \<Rightarrow> int"
  mysql_query :: "'c \<Rightarrow> string \<Rightarrow> int \<times> 'c"
  mysql_send_query :: "'c \<Rightarrow> string \<Rightarrow> nat \<Rightarrow> int \<times> 'c"
  mysql_read_query_result :: "'c \<Rightarrow> int \<times> 'c"
  mysql_more_results :: "'c \<Rightarrow> bool"
  mysql_next_result :: "'c \<Rightarrow> int \<times> 'c"
  mysql_store_result :: "'c \<Rightarrow> MYSQL_RES option \<times> 'c"

text \<open>
  \<open>mysql_init(nullptr)\<close> allocates a handle.  The library's allocator is the sequence
  of handles it will hand out (\<open>None\<close> where the allocation fails) and the count of the
  calls made so far.
\<close>

record 'c mysql_library =
  handles_made :: nat
  fresh_handle :: "nat \<Rightarrow> 'c option"

definition mysql_init :: "'c mysql_library \<Rightarrow> 'c option \<times> 'c mysql_library" where
  "mysql_init w = (fresh_handle w (handles_made w), w\<lparr>handles_made := handles_made w + 1\<rparr>)"

text \<open>
  The two client error codes of \<open>errmsg.h\<close> the library tests for: the values
  \<open>mysql_errno\<close> reports when the server has gone away and when the connection was lost.
\<close>

definition CR_SERVER_GONE_ERROR :: int where
  "CR_SERVER_GONE_ERROR = 2006"

definition CR_SERVER_LOST :: int where
  "CR_SERVER_LOST = 2013"

section \<open>Result\<close>

text \<open>
  \<open>std::map\<close> is an association list with at most one entry per key, read by
  \<open>map_of\<close>.  \<open>index[key] = v\<close> overwrites, \<open>emplace\<close> keeps an entry that exists.
\<close>

fun assign :: "('k \<times> 'v) list \<Rightarrow> 'k \<Rightarrow> 'v \<Rightarrow> ('k \<times> 'v) list" where
  "assign [] k v = [(k, v)]"
| "assign ((k', v') # m) k v = (if k' = k then (k, v) # m else (k', v') # assign m k v)"

definition emplace :: "('k \<times> 'v) list \<Rightarrow> 'k \<Rightarrow> 'v \<Rightarrow> ('k \<times> 'v) list" where
  "emplace m k v = (case map_of m k of None \<Rightarrow> m @ [(k, v)] | Some _ \<Rightarrow> m)"

text \<open>\<open>class ResultIndex\<close>: the member \<open>index\<close>.\<close>

type_synonym ResultIndex = "(string \<times> 32 word) list"

definition ResultIndex_empty :: "ResultIndex \<Rightarrow> bool" where
  "ResultIndex_empty index = (index = [])"

definition initialize :: "ResultIndex \<Rightarrow> string list option \<Rightarrow> 32 word \<Rightarrow> exn + ResultIndex" where
  "initialize index flds fieldCount =
     (case flds of
        None \<Rightarrow> Inl (Exception ''Cannot initialize result index from null field result'')
      | Some fs \<Rightarrow>
          Inr (fold (\<lambda>i ix. assign ix (fs ! i) (word_of_nat i)) [0..<unat fieldCount] index))"

definition getFieldIndex :: "ResultIndex \<Rightarrow> string \<Rightarrow> exn + 32 word" where
  "getFieldIndex index field =
     (case map_of index field of
        None \<Rightarrow> Inl (out_of_range (''No such field in result set: '' @ field))
      | Some pos \<Rightarrow> Inr pos)"

text \<open>
  \<open>class Result::PrivateData\<close>.  The member \<open>fields\<close> is called \<open>res_fields\<close> here, and
  \<open>metaReader\<close> holds the map of the \<open>MetaReader\<close> it points to.  The pointer \<open>result\<close> is
  taken to be non-null, as the constructor leaves it.  Of the state of an object that has
  been moved from (\<open>result\<close> and \<open>fieldInfo\<close> null, \<open>fields\<close> zero) the null field array and
  the zero count are represented.
\<close>

record Result =
  columnIndex :: ResultIndex
  metaReader :: "(string \<times> string) list option"
  result :: MYSQL_RES
  fieldInfo :: "string list option"
  res_fields :: "32 word"

text \<open>\<open>Result::Result(MYSQL *con)\<close>.\<close>

definition Result_ctor :: "'c mysql_api \<Rightarrow> 'c \<Rightarrow> (exn + Result) \<times> 'c" where
  "Result_ctor T c =
     (case mysql_store_result T c of
        (None, c') \<Rightarrow>
          (Inl (Exception (''mysql_store_result error: '' @ mysql_error T (Some c'))), c')
      | (Some res, c') \<Rightarrow>
          (Inr \<lparr>columnIndex = [], metaReader = None, result = res,
                fieldInfo = mysql_fetch_fields res, res_fields = mysql_num_fields res\<rparr>, c'))"

definition getNextRow :: "Result \<Rightarrow> Row \<Rightarrow> bool \<times> Result \<times> Row" where
  "getNextRow r row =
     (case mysql_fetch_row (result r) of
        (Some d, res') \<Rightarrow>
          (let row' = row\<lparr>row_data := d, origin := True, row_fields := res_fields r,
                           fieldIter := 0\<rparr>
           in (Row_size row' > 0, r\<lparr>result := res'\<rparr>, row'))
      | (None, res') \<Rightarrow>
          (let row' = row\<lparr>row_data := [], origin := False, row_fields := 0, fieldIter := 0\<rparr>
           in (Row_size row' > 0, r\<lparr>result := res'\<rparr>, row')))"

definition Result_size :: "Result \<Rightarrow> 32 word" where
  "Result_size r = ucast (mysql_num_rows (result r))"

text \<open>\<open>Result::getColumnIndex\<close> builds the index on first use.\<close>

definition getColumnIndex :: "Result \<Rightarrow> string \<Rightarrow> (exn + 32 word) \<times> Result" where
  "getColumnIndex r fieldName =
     (if ResultIndex_empty (columnIndex r)
      then (case initialize (columnIndex r) (fieldInfo r) (res_fields r) of
              Inl e \<Rightarrow> (Inl e, r)
            | Inr ix \<Rightarrow> (getFieldIndex ix fieldName, r\<lparr>columnIndex := ix\<rparr>))
      else (getFieldIndex (columnIndex r) fieldName, r))"

text \<open>
  \<open>MetaReader::MetaReader(Result &)\<close>: the loop over the rows of the SHOW META result.
  Each row is read with \<open>row >> key >> value\<close> into two empty strings.
\<close>

function MetaReader_rows ::
  "Result \<Rightarrow> Row \<Rightarrow> (string \<times> string) list \<Rightarrow> exn + (string \<times> string) list" where
  "MetaReader_rows r row vals =
     (case getNextRow r row of
        (False, r', row') \<Rightarrow> Inr vals
      | (True, r', row') \<Rightarrow>
          (case operator_shr convertResult_string row' [] of
             Inl e \<Rightarrow> Inl e
           | Inr (key, row1) \<Rightarrow>
               (case operator_shr convertResult_string row1 [] of
                  Inl e \<Rightarrow> Inl e
                | Inr (val, row2) \<Rightarrow>
                    MetaReader_rows r' row2
                      (if key \<noteq> [] then emplace vals key val else vals))))"
  by pat_completeness auto
termination
  by (relation "measure (\<lambda>(r, row, vals). length (row_queue (result r)))")
     (auto simp: getNextRow_def mysql_fetch_row_def Row_size_def Let_def
           split: list.splits)

declare MetaReader_rows.simps [simp del]

definition MetaReader_ctor :: "Result \<Rightarrow> exn + (string \<times> string) list" where
  "MetaReader_ctor r = MetaReader_rows r Row_ctor []"

definition MetaReader_getValue :: "(string \<times> string) list \<Rightarrow> string \<Rightarrow> string" where
  "MetaReader_getValue vals variable =
     (case map_of vals variable of Some v \<Rightarrow> v | None \<Rightarrow> [])"

definition addMeta :: "Result \<Rightarrow> Result option \<Rightarrow> exn + Result" where
  "addMeta r meta =
     (case meta of
        None \<Rightarrow> Inr r
      | Some m \<Rightarrow>
          (case MetaReader_ctor m of
             Inl e \<Rightarrow> Inl e
           | Inr vals \<Rightarrow> Inr (r\<lparr>metaReader := Some vals\<rparr>)))"

definition getMeta :: "Result \<Rightarrow> string \<Rightarrow> exn + string" where
  "getMeta r variable =
     (case metaReader r of
        None \<Rightarrow> Inl (Exception ''No SHOW META result.'')
      | Some vals \<Rightarrow> Inr (MetaReader_getValue vals variable))"

text \<open>
  \<open>Row::getValue<T>\<close>.  \<open>res\<close> is the Result \<open>origin\<close> points to; building its column
  index changes it.  \<open>conv\<close> is \<open>convertResult<T>\<close> and \<open>T0\<close> the default argument \<open>T{}\<close>.
\<close>

definition getValue ::
  "(string option \<Rightarrow> 'a \<Rightarrow> 'a) \<Rightarrow> 'a \<Rightarrow> Row \<Rightarrow> Result \<Rightarrow> string \<Rightarrow> (exn + 'a) \<times> Result" where
  "getValue conv T0 row res field =
     (if \<not> origin row then (Inl (Exception ''Row is probably not initialized!''), res)
      else (case getColumnIndex res field of
              (Inl e, res') \<Rightarrow> (Inl e, res')
            | (Inr idx, res') \<Rightarrow>
                (case operator_index row idx of
                   Inl e \<Rightarrow> (Inl e, res')
                 | Inr d \<Rightarrow> (Inr (conv d T0), res'))))"

section \<open>Query\<close>

text \<open>
  \<open>struct Query::Config\<close> and \<open>class Query::PrivateData\<close>.  \<open>queries\<close> is the batch: the
  statements with their SHOW META flags, in the order they were added.
\<close>

record Config =
  connectTimeout :: "32 word"
  writeTimeout :: "32 word"
  readTimeout :: "32 word"
  optProtocol :: "32 word"

record 'c Query =
  con :: 'c
  connected :: bool
  firstToRetrieve :: bool
  queries :: "(string \<times> bool) list"

text \<open>\<open>Query::Query()\<close>: the constructor of the private data throws when \<open>mysql_init\<close> fails.\<close>

definition Query_ctor ::
  "'c mysql_api \<Rightarrow> 'c mysql_library \<Rightarrow> (exn + 'c Query) \<times> 'c mysql_library" where
  "Query_ctor T w =
     (case mysql_init w of
        (None, w') \<Rightarrow> (Inl (Exception (mysql_error T None)), w')
      | (Some c, w') \<Rightarrow>
          (Inr \<lparr>con = c, connected = False, firstToRetrieve = True, queries = []\<rparr>, w'))"

definition setConfigOptions :: "'c mysql_api \<Rightarrow> 'c Query \<Rightarrow> Config \<Rightarrow> 'c Query" where
  "setConfigOptions T d cfg =
     (let c0 = con d;
          c1 = (if optProtocol cfg \<noteq> 0
                then mysql_options T c0 MYSQL_OPT_PROTOCOL (optProtocol cfg) else c0);
          c2 = mysql_options T c1 MYSQL_OPT_CONNECT_TIMEOUT (connectTimeout cfg);
          c3 = mysql_options T c2 MYSQL_OPT_WRITE_TIMEOUT (writeTimeout cfg);
          c4 = mysql_options T c3 MYSQL_OPT_READ_TIMEOUT (readTimeout cfg)
      in d\<lparr>con := c4\<rparr>)"

text \<open>\<open>Query::Query(const Config &)\<close>.\<close>

definition Query_ctor_cfg ::
  "'c mysql_api \<Rightarrow> 'c mysql_library \<Rightarrow> Config \<Rightarrow> (exn + 'c Query) \<times> 'c mysql_library" where
  "Query_ctor_cfg T w cfg =
     (case Query_ctor T w of
        (Inl e, w') \<Rightarrow> (Inl e, w')
      | (Inr d, w') \<Rightarrow> (Inr (setConfigOptions T d cfg), w'))"

text \<open>
  \<open>Query::PrivateData::connect\<close>; \<open>Query::connect(unixsocket)\<close> is \<open>connect\<close> with port
  zero.
\<close>

definition connect :: "'c mysql_api \<Rightarrow> 'c Query \<Rightarrow> string \<Rightarrow> int \<Rightarrow> (exn + unit) \<times> 'c Query" where
  "connect T d host port =
     (let (status, c') =
            (if port > 0
             then mysql_real_connect T (con d) (Some host) port ''/var/run/sphinx.s''
             else mysql_real_connect T (con d) None 0 host)
      in if \<not> status then (Inl (Exception (mysql_error T (Some c'))), d\<lparr>con := c'\<rparr>)
         else (Inr (), d\<lparr>con := c', connected := True\<rparr>))"

definition isConnected :: "'c Query \<Rightarrow> bool" where
  "isConnected d = connected d"

definition clear :: "'c Query \<Rightarrow> 'c Query" where
  "clear d = d\<lparr>firstToRetrieve := True, queries := []\<rparr>"

definition empty :: "'c Query \<Rightarrow> bool" where
  "empty d = (queries d = [])"

definition addQuery :: "'c Query \<Rightarrow> string \<Rightarrow> bool \<Rightarrow> 'c Query" where
  "addQuery d query meta = d\<lparr>queries := queries d @ [(query, meta)]\<rparr>"

definition getQueries :: "'c Query \<Rightarrow> (string \<times> bool) list" where
  "getQueries d = queries d"

text \<open>
  \<open>Query::PrivateData::getQueryString\<close>: the loop appends to the stream \<open>query\<close>, which
  starts empty.
\<close>

definition getQueryString :: "'c Query \<Rightarrow> string" where
  "getQueryString d =
     fold (\<lambda>queryInfo query.
             (let query1 = query @ fst queryInfo
              in if snd queryInfo then query1 @ ''SHOW META; '' else query1))
          (queries d) []"

text \<open>\<open>Query::PrivateData::execute\<close>: the synchronous dispatch.\<close>

definition execute :: "'c mysql_api \<Rightarrow> 'c Query \<Rightarrow> (exn + unit) \<times> 'c Query" where
  "execute T d =
     (let query = getQueryString d;
          (status, c') = mysql_query T (con d) query;
          d' = d\<lparr>con := c'\<rparr>
      in if status \<noteq> 0
         then (if status = CR_SERVER_GONE_ERROR \<or> status = CR_SERVER_LOST
               then (Inl (TimeoutException (mysql_error T (Some c'))), d')
               else (Inl (Exception (mysql_error T (Some c'))), d'))
         else (Inr (), d'))"

definition asyncExecute :: "'c mysql_api \<Rightarrow> 'c Query \<Rightarrow> (exn + unit) \<times> 'c Query" where
  "asyncExecute T d =
     (let d1 = d\<lparr>firstToRetrieve := True\<rparr>;
          query = getQueryString d1;
          (status, c') = mysql_send_query T (con d1) query (length query);
          d' = d1\<lparr>con := c'\<rparr>
      in if status \<noteq> 0
         then (Inl (Exception (''mysql_send_query failed: '' @ mysql_error T (Some c'))), d')
         else (Inr (), d'))"

definition waitForAsyncResult :: "'c mysql_api \<Rightarrow> 'c Query \<Rightarrow> (exn + unit) \<times> 'c Query" where
  "waitForAsyncResult T d =
     (let (status, c') = mysql_read_query_result T (con d);
          d' = d\<lparr>con := c'\<rparr>
      in if status \<noteq> 0
         then (Inl (Exception (''mysql_read_query_result failed: '' @
                                 mysql_error T (Some c'))), d')
         else (Inr (), d'))"

text \<open>
  \<open>Query::PrivateData::nextResult\<close>.  \<open>mysql_next_result\<close> is called only when
  \<open>mysql_more_results\<close> holds.
\<close>

definition nextResult :: "'c mysql_api \<Rightarrow> 'c Query \<Rightarrow> (exn + Result) \<times> 'c Query" where
  "nextResult T d =
     (if firstToRetrieve d
      then (let d1 = d\<lparr>firstToRetrieve := False\<rparr>;
                (r, c') = Result_ctor T (con d1)
            in (r, d1\<lparr>con := c'\<rparr>))
      else if mysql_more_results T (con d)
      then (let (status, c1) = mysql_next_result T (con d)
            in if status = 0
               then (let (r, c') = Result_ctor T c1 in (r, d\<lparr>con := c'\<rparr>))
               else (Inl (Exception ''No result returned''), d\<lparr>con := c1\<rparr>))
      else (Inl (Exception ''No result returned''), d))"

section \<open>Response\<close>

record Response =
  results :: "Result list"

text \<open>
  \<open>Response::fill\<close>: the loop over the batch.  An exception leaves the loop at once; the
  Response under construction is then destroyed with the results pushed so far.
\<close>

fun fill_loop ::
  "'c mysql_api \<Rightarrow> (string \<times> bool) list \<Rightarrow> 'c Query \<Rightarrow> Response \<Rightarrow>
     (exn + unit) \<times> 'c Query \<times> Response" where
  "fill_loop T [] query resp = (Inr (), query, resp)"
| "fill_loop T (queryInfo # rest) query resp =
     (case nextResult T query of
        (Inl e, query1) \<Rightarrow> (Inl e, query1, resp)
      | (Inr res, query1) \<Rightarrow>
          (if snd queryInfo
           then (case nextResult T query1 of
                   (Inl e, query2) \<Rightarrow> (Inl e, query2, resp)
                 | (Inr meta, query2) \<Rightarrow>
                     (case addMeta res (Some meta) of
                        Inl e \<Rightarrow> (Inl e, query2, resp)
                      | Inr res' \<Rightarrow>
                          fill_loop T rest query2 (resp\<lparr>results := results resp @ [res']\<rparr>)))
           else fill_loop T rest query1 (resp\<lparr>results := results resp @ [res]\<rparr>)))"

definition fill ::
  "'c mysql_api \<Rightarrow> 'c Query \<Rightarrow> Response \<Rightarrow> (exn + unit) \<times> 'c Query \<times> Response" where
  "fill T query resp = fill_loop T (getQueries query) query resp"

text \<open>\<open>Response::Response(Query &)\<close>.\<close>

definition Response_Query :: "'c mysql_api \<Rightarrow> 'c Query \<Rightarrow> (exn + Response) \<times> 'c Query" where
  "Response_Query T query =
     (case fill T query \<lparr>results = []\<rparr> of
        (Inl e, query', resp) \<Rightarrow> (Inl e, query')
      | (Inr _, query', resp) \<Rightarrow> (Inr resp, query'))"

text \<open>\<open>Response::Response(AsyncQuery &)\<close>: \<open>fill\<close> for each Query of the round, in order.\<close>

fun fill_each ::
  "'c mysql_api \<Rightarrow> 'c Query list \<Rightarrow> Response \<Rightarrow> (exn + unit) \<times> 'c Query list \<times> Response" where
  "fill_each T [] resp = (Inr (), [], resp)"
| "fill_each T (query # rest) resp =
     (case fill T query resp of
        (Inl e, query', resp') \<Rightarrow> (Inl e, query' # rest, resp')
      | (Inr _, query', resp') \<Rightarrow>
          (case fill_each T rest resp' of
             (r, rest', resp'') \<Rightarrow> (r, query' # rest', resp'')))"

definition Response_AsyncQuery ::
  "'c mysql_api \<Rightarrow> 'c Query list \<Rightarrow> (exn + Response) \<times> 'c Query list" where
  "Response_AsyncQuery T qs =
     (case fill_each T qs \<lparr>results = []\<rparr> of
        (Inl e, qs', resp) \<Rightarrow> (Inl e, qs')
      | (Inr _, qs', resp) \<Rightarrow> (Inr resp, qs'))"

text \<open>\<open>Response::next\<close>: \<open>None\<close> is the null pointer returned once the queue is empty.\<close>

definition Response_next :: "Response \<Rightarrow> Result option \<times> Response" where
  "Response_next resp =
     (case results resp of
        [] \<Rightarrow> (None, resp)
      | res # rest \<Rightarrow> (Some res, resp\<lparr>results := rest\<rparr>))"

text \<open>The values of \<open>n\<close> successive calls of \<open>Response::next\<close>.\<close>

fun next_n :: "nat \<Rightarrow> Response \<Rightarrow> Result option list" where
  "next_n 0 resp = []"
| "next_n (Suc n) resp = (case Response_next resp of (r, resp') \<Rightarrow> r # next_n n resp')"

text \<open>
  \<open>Query::execute\<close>.  The scope guard \<open>finalClear\<close> is constructed after the connection
  check and runs on every later exit.
\<close>

definition Query_execute :: "'c mysql_api \<Rightarrow> 'c Query \<Rightarrow> (exn + Response) \<times> 'c Query" where
  "Query_execute T d =
     (if \<not> isConnected d then (Inl (Exception ''No connection established!''), d)
      else (case execute T d of
              (Inl e, d1) \<Rightarrow> (Inl e, clear d1)
            | (Inr _, d1) \<Rightarrow>
                (case Response_Query T d1 of (r, d2) \<Rightarrow> (r, clear d2))))"

section \<open>AsyncQuery\<close>

text \<open>
  \<open>class AsyncQuery\<close> with the host, port and optional configuration of its private
  data.  \<open>connections\<close> is the queue of idle connections; the member \<open>queries\<close>, the
  connections of the round being prepared, is called \<open>workers\<close> here.  A connection that
  is dropped from both lists is destroyed.
\<close>

record 'c AsyncQuery =
  connections :: "'c Query list"
  workers :: "'c Query list"
  pd_host :: string
  pd_port :: int
  pd_cfg :: "Config option"


text \<open>\<open>AsyncQuery::add(const char *query, bool meta)\<close>.\<close>

definition add ::
  "'c mysql_api \<Rightarrow> 'c mysql_library \<Rightarrow> 'c AsyncQuery \<Rightarrow> string \<Rightarrow> bool \<Rightarrow>
     (exn + unit) \<times> 'c AsyncQuery \<times> 'c mysql_library" where
  "add T w A query meta =
     (case connections A of
        worker # rest \<Rightarrow>
          (Inr (), A\<lparr>connections := rest, workers := workers A @ [addQuery worker query meta]\<rparr>, w)
      | [] \<Rightarrow>
          (case (case pd_cfg A of
                   Some cfg \<Rightarrow> Query_ctor_cfg T w cfg
                 | None \<Rightarrow> Query_ctor T w) of
             (Inl e, w') \<Rightarrow> (Inl e, A, w')
           | (Inr worker, w') \<Rightarrow>
               (case (if pd_port A \<noteq> 0 then connect T worker (pd_host A) (pd_port A)
                      else connect T worker (pd_host A) 0) of
                  (Inl e, worker') \<Rightarrow> (Inl e, A, w')
                | (Inr _, worker') \<Rightarrow>
                    (Inr (), A\<lparr>workers := workers A @ [addQuery worker' query meta]\<rparr>, w'))))"

text \<open>
  \<open>Query::Query(Query &&other)\<close> constructs fresh private data, which calls \<open>mysql_init\<close>
  and may throw, and swaps it with that of \<open>other\<close>: the new object holds what \<open>other\<close>
  held, and \<open>other\<close> is left with the fresh handle.  The pair returned is the new object
  and \<open>other\<close>.
\<close>

definition Query_move ::
  "'c mysql_api \<Rightarrow> 'c mysql_library \<Rightarrow> 'c Query \<Rightarrow>
     (exn + 'c Query \<times> 'c Query) \<times> 'c mysql_library" where
  "Query_move T w other =
     (case Query_ctor T w of
        (Inl e, w') \<Rightarrow> (Inl e, w')
      | (Inr fresh, w') \<Rightarrow> (Inr (other, fresh), w'))"

text \<open>
  \<open>AsyncQuery::add(Query &&)\<close>.  The caller's Query is connected if need be, then moved
  into a new object with \<open>std::make_unique<Query>(std::move(query))\<close>; what is left of the
  caller's Query stays with the caller.
\<close>

definition add_Query ::
  "'c mysql_api \<Rightarrow> 'c mysql_library \<Rightarrow> 'c AsyncQuery \<Rightarrow> 'c Query \<Rightarrow>
     (exn + unit) \<times> 'c AsyncQuery \<times> 'c mysql_library" where
  "add_Query T w A query =
     (case (if \<not> isConnected query
            then (if pd_port A \<noteq> 0 then connect T query (pd_host A) (pd_port A)
                  else connect T query (pd_host A) 0)
            else (Inr (), query)) of
        (Inl e, query') \<Rightarrow> (Inl e, A, w)
      | (Inr _, query') \<Rightarrow>
          (if empty query'
           then (case Query_move T w query' of
                   (Inl e, w') \<Rightarrow> (Inl e, A, w')
                 | (Inr (moved, left), w') \<Rightarrow>
                     (Inr (), A\<lparr>connections := connections A @ [moved]\<rparr>, w'))
           else (case Query_move T w query' of
                   (Inl e, w') \<Rightarrow> (Inl e, A, w')
                 | (Inr (moved, left), w') \<Rightarrow>
                     (Inr (), A\<lparr>workers := workers A @ [moved]\<rparr>, w'))))"

text \<open>The two loops of \<open>AsyncQuery::launch\<close>: each stops at the first exception.\<close>

fun asyncExecute_each ::
  "'c mysql_api \<Rightarrow> 'c Query list \<Rightarrow> (exn + unit) \<times> 'c Query list" where
  "asyncExecute_each T [] = (Inr (), [])"
| "asyncExecute_each T (query # rest) =
     (case asyncExecute T query of
        (Inl e, query') \<Rightarrow> (Inl e, query' # rest)
      | (Inr _, query') \<Rightarrow>
          (case asyncExecute_each T rest of (r, rest') \<Rightarrow> (r, query' # rest')))"

fun waitForAsyncResult_each ::
  "'c mysql_api \<Rightarrow> 'c Query list \<Rightarrow> (exn + unit) \<times> 'c Query list" where
  "waitForAsyncResult_each T [] = (Inr (), [])"
| "waitForAsyncResult_each T (query # rest) =
     (case waitForAsyncResult T query of
        (Inl e, query') \<Rightarrow> (Inl e, query' # rest)
      | (Inr _, query') \<Rightarrow>
          (case waitForAsyncResult_each T rest of (r, rest') \<Rightarrow> (r, query' # rest')))"

text \<open>
  The scope guard \<open>finalCleanup\<close> of \<open>launch\<close>: every connection of the round is cleared
  and pushed on the queue of idle connections.
\<close>

definition finalCleanup :: "'c AsyncQuery \<Rightarrow> 'c AsyncQuery" where
  "finalCleanup A =
     A\<lparr>connections := connections A @ map clear (workers A), workers := []\<rparr>"

text \<open>
  \<open>AsyncQuery::launch\<close>.  The idle connections are dropped first.  An exception of the
  send or wait loop is caught, the round's connections are dropped and the exception is
  thrown again.  \<open>finalCleanup\<close> is constructed after that block, so it runs when the
  constructor of the Response returns and also when it throws.
\<close>

definition launch :: "'c mysql_api \<Rightarrow> 'c AsyncQuery \<Rightarrow> (exn + Response) \<times> 'c AsyncQuery" where
  "launch T A =
     (let A0 = A\<lparr>connections := []\<rparr>
      in case asyncExecute_each T (workers A0) of
           (Inl e, qs1) \<Rightarrow> (Inl e, A0\<lparr>workers := []\<rparr>)
         | (Inr _, qs1) \<Rightarrow>
             (case waitForAsyncResult_each T qs1 of
                (Inl e, qs2) \<Rightarrow> (Inl e, A0\<lparr>workers := []\<rparr>)
              | (Inr _, qs2) \<Rightarrow>
                  (case Response_AsyncQuery T qs2 of
                     (r, qs3) \<Rightarrow> (r, finalCleanup (A0\<lparr>workers := qs3\<rparr>)))))"

section \<open>Well-formed column metadata\<close>

text \<open>
  A Result has column metadata when its field array is present with as many entries as
  the field count says, and its column index is either not yet built or the one
  \<open>initialize\<close> builds from that array.  \<open>column_names\<close> are the names in the array.
\<close>

definition has_columns :: "Result \<Rightarrow> bool" where
  "has_columns r =
     (case fieldInfo r of
        None \<Rightarrow> False
      | Some fs \<Rightarrow>
          length fs = unat (res_fields r) \<and>
          (columnIndex r = [] \<or> initialize [] (Some fs) (res_fields r) = Inr (columnIndex r)))"

definition column_names :: "Result \<Rightarrow> string list" where
  "column_names r = (case fieldInfo r of None \<Rightarrow> [] | Some fs \<Rightarrow> fs)"

section \<open>Demultiplexing, as specified\<close>

text \<open>
  The specification of the demultiplexing: \<open>nextResult_n\<close> pulls \<open>n\<close> result sets off a
  connection, one call of \<open>nextResult\<close> after the other.  \<open>demultiplexed es raws rs\<close> pairs
  the entries \<open>es\<close> of a batch with the raw result sets \<open>raws\<close>, in order: an entry takes the
  next raw result set as its Result; a flagged entry takes one more, which is merged into
  that Result and is no Result of its own.  \<open>position es i\<close> is the place, among the result
  sets pulled, of the one the \<open>i\<close>-th entry gets: \<open>i\<close> plus the number of flagged entries
  before it.  \<open>pulls es\<close> is the number of result sets the
  batch \<open>es\<close> asks for, and \<open>demux_of T q q' part\<close> says that pulling them off the Query \<open>q\<close>
  succeeds, leaves it as \<open>q'\<close>, and that they pair up to the Results \<open>part\<close>.  \<open>merge_row\<close>
  merges one row of a SHOW META result into the map: its first two columns are key and
  value, a row with an empty key is skipped, and a key already present keeps its value.
\<close>

definition merge_row :: "string option list \<Rightarrow> (string \<times> string) list \<Rightarrow> (string \<times> string) list" where
  "merge_row cols vals =
     (let key = convertResult_string (cols ! 0) [];
          val = convertResult_string (cols ! 1) []
      in if key \<noteq> [] then emplace vals key val else vals)"

fun nextResult_n :: "'c mysql_api \<Rightarrow> nat \<Rightarrow> 'c Query \<Rightarrow> (exn + Result list) \<times> 'c Query" where
  "nextResult_n T 0 d = (Inr [], d)"
| "nextResult_n T (Suc n) d =
     (case nextResult T d of
        (Inl e, d1) \<Rightarrow> (Inl e, d1)
      | (Inr r, d1) \<Rightarrow>
          (case nextResult_n T n d1 of
             (Inl e, d2) \<Rightarrow> (Inl e, d2)
           | (Inr rs, d2) \<Rightarrow> (Inr (r # rs), d2)))"

fun demultiplexed :: "(string \<times> bool) list \<Rightarrow> Result list \<Rightarrow> Result list \<Rightarrow> bool" where
  "demultiplexed [] raws rs = (raws = [] \<and> rs = [])"
| "demultiplexed (entry # es) raws rs =
     (case raws of
        [] \<Rightarrow> False
      | r # raws1 \<Rightarrow>
          (case rs of
             [] \<Rightarrow> False
           | x # rs1 \<Rightarrow>
               (if snd entry
                then (case raws1 of
                        [] \<Rightarrow> False
                      | m # raws2 \<Rightarrow>
                          addMeta r (Some m) = Inr x \<and> demultiplexed es raws2 rs1)
                else x = r \<and> demultiplexed es raws1 rs1)))"

definition position :: "(string \<times> bool) list \<Rightarrow> nat \<Rightarrow> nat" where
  "position es i = i + length (filter snd (take i es))"

definition pulls :: "(string \<times> bool) list \<Rightarrow> nat" where
  "pulls es = length es + length (filter snd es)"

definition demux_of :: "'c mysql_api \<Rightarrow> 'c Query \<Rightarrow> 'c Query \<Rightarrow> Result list \<Rightarrow> bool" where
  "demux_of T q q' part =
     (case nextResult_n T (pulls (queries q)) q of
        (Inl e, q'') \<Rightarrow> False
      | (Inr raws, q'') \<Rightarrow> q'' = q' \<and> demultiplexed (queries q) raws part)"

section \<open>A caller of the pool\<close>


section \<open>A scripted transport\<close>

text \<open>
  A handle whose answers are fixed in advance, to run the model on concrete inputs:
  whether connecting succeeds, the client error code \<open>mysql_errno\<close> reports, the status the
  dispatch returns, the status of reading the
  reply, and the reply stream, one entry per statement (\<open>None\<close> for a statement that
  yields no result set, as an INSERT or DELETE does), the head being the current one.
\<close>

record script =
  connects :: bool
  errno :: int
  dispatch_status :: int
  read_status :: int
  replies :: "MYSQL_RES option list"

definition scripted :: "script mysql_api" where
  "scripted =
     \<lparr>mysql_options = (\<lambda>c opt v. c),
      mysql_real_connect = (\<lambda>c host port sock. (connects c, c)),
      mysql_error = (\<lambda>c. []),
      mysql_errno = errno,
      mysql_query = (\<lambda>c q. (dispatch_status c, c)),
      mysql_send_query = (\<lambda>c q n. (dispatch_status c, c)),
      mysql_read_query_result = (\<lambda>c. (read_status c, c)),
      mysql_more_results = (\<lambda>c. length (replies c) > 1),
      mysql_next_result =
        (\<lambda>c. if length (replies c) > 1 then (0, c\<lparr>replies := tl (replies c)\<rparr>) else (- 1, c)),
      mysql_store_result = (\<lambda>c. (case replies c of [] \<Rightarrow> None | r # _ \<Rightarrow> r, c))\<rparr>"

text \<open>
  Example data: the rows of a SELECT on the test index, the rows of a SHOW META result,
  and a handle that accepts every dispatch and holds the given reply stream.
\<close>

definition idx_test_rows :: MYSQL_RES where
  "idx_test_rows =
     \<lparr>field_count = 2, field_array = Some [''id'', ''string_data''],
      row_queue = [[Some ''219'', Some ''Additional string attribute''], [Some ''220'', None]],
      row_count = 2\<rparr>"

definition show_meta_rows :: MYSQL_RES where
  "show_meta_rows =
     \<lparr>field_count = 2, field_array = Some [''Variable_name'', ''Value''],
      row_queue = [[Some ''total'', Some ''2''], [Some ''total_found'', Some ''2''],
                   [Some ''time'', Some ''0.000'']],
      row_count = 3\<rparr>"

definition reply :: "MYSQL_RES option list \<Rightarrow> script" where
  "reply rs =
     \<lparr>connects = True, errno = 0, dispatch_status = 0, read_status = 0, replies = rs\<rparr>"

text \<open>
  Two connections of a round after a successful send and wait: one whose batch asks for
  SHOW META and whose reply holds the rows and the SHOW META result, one without.  The two
  Results their demultiplexing yields.
\<close>

definition with_meta :: "script Query" where
  "with_meta =
     \<lparr>con = reply [Some idx_test_rows, Some show_meta_rows], connected = True,
      firstToRetrieve = True, queries = [(''SELECT * FROM idx_test;'', True)]\<rparr>"

definition without_meta :: "script Query" where
  "without_meta =
     \<lparr>con = reply [Some idx_test_rows], connected = True,
      firstToRetrieve = True, queries = [(''SELECT id FROM idx_test;'', False)]\<rparr>"

definition result_with_meta :: Result where
  "result_with_meta =
     \<lparr>columnIndex = [],
      metaReader = Some [(''total'', ''2''), (''total_found'', ''2''), (''time'', ''0.000'')],
      result = idx_test_rows, fieldInfo = Some [''id'', ''string_data''], res_fields = 2\<rparr>"

definition result_without_meta :: Result where
  "result_without_meta =
     \<lparr>columnIndex = [], metaReader = None,
      result = idx_test_rows, fieldInfo = Some [''id'', ''string_data''], res_fields = 2\<rparr>"

text \<open>
  An AsyncQuery on the test socket, with the given idle connections and connections of
  the round; a library whose every allocation succeeds.
\<close>

definition pool :: "script Query list \<Rightarrow> script Query list \<Rightarrow> script AsyncQuery" where
  "pool idle round =
     \<lparr>connections = idle, workers = round, pd_host = ''/tmp/test-sphinxql.s'', pd_port = 0,
      pd_cfg = None\<rparr>"


text \<open>
  A connection of a round whose statement yields no result set, and the first connection
  above once both of its result sets have been pulled.
\<close>

definition delete_worker :: "script Query" where
  "delete_worker =
     \<lparr>con = reply [None], connected = True, firstToRetrieve = True,
      queries = [(''DELETE FROM rt WHERE id = 1;'', False)]\<rparr>"

definition with_meta_read :: "script Query" where
  "with_meta_read =
     \<lparr>con = reply [Some show_meta_rows], connected = True, firstToRetrieve = False,
      queries = [(''SELECT * FROM idx_test;'', True)]\<rparr>"

text \<open>
  Rows of one column: text that is no number, a number, and NULL.
\<close>

definition row_abc :: Row where
  "row_abc = \<lparr>origin = True, row_data = [Some ''abc''], row_fields = 1, fieldIter = 0\<rparr>"

definition row_219 :: Row where
  "row_219 = \<lparr>origin = True, row_data = [Some ''219''], row_fields = 1, fieldIter = 0\<rparr>"


text \<open>
  A connected Query whose connection to the daemon was lost: the dispatch fails, for
  which \<open>mysql_query\<close> returns 1, and \<open>mysql_errno\<close> reports \<open>CR_SERVER_LOST\<close>.
\<close>

definition lost_connection :: "script Query" where
  "lost_connection =
     \<lparr>con = \<lparr>connects = True, errno = 2013, dispatch_status = 1, read_status = 1,
             replies = []\<rparr>,
      connected = True, firstToRetrieve = True,
      queries = [(''SELECT * FROM idx_test;'', False)]\<rparr>"

section \<open>Rows: bounds and the read cursor\<close>

lemma checkBounds_ok: "index < row_fields row \<Longrightarrow> checkBounds row index = Inr ()"
  by (simp add: checkBounds_def not_le)

lemma checkBounds_fail:
  "row_fields row \<le> index \<Longrightarrow>
   checkBounds row index =
     Inl (out_of_range (''Row column out of range: '' @ to_string (unat index)))"
  by (simp add: checkBounds_def)

lemma operator_shr_ok:
  "fieldIter row < row_fields row \<Longrightarrow>
   operator_shr conv row v =
     Inr (conv (row_data row ! unat (fieldIter row)) v, row\<lparr>fieldIter := fieldIter row + 1\<rparr>)"
  by (simp add: operator_shr_def checkBounds_ok)

lemma operator_shr_fail:
  "row_fields row \<le> fieldIter row \<Longrightarrow>
   operator_shr conv row v =
     Inl (out_of_range (''Row column out of range: '' @ to_string (unat (fieldIter row))))"
  by (simp add: operator_shr_def checkBounds_fail)

text \<open>The cursor cannot wrap: it is incremented only while below the column count.\<close>

lemma unat_succ_below:
  fixes i m :: "32 word"
  assumes lt: "i < m"
  shows "unat (i + 1) = Suc (unat i)"
proof -
  have "unat i < unat m" using lt by (simp add: word_less_nat_alt)
  moreover have "unat m < 2 ^ 32" using unsigned_less [of m] by simp
  ultimately have "unat i + 1 < 2 ^ 32" by simp
  then show ?thesis by (simp add: unat_word_ariths)
qed

lemma shr_n_count:
  "fieldIter row \<le> row_fields row \<Longrightarrow>
   (n \<le> unat (row_fields row) - unat (fieldIter row) \<longrightarrow>
      (\<exists>v'. shr_n conv n row v = Inr (v', row\<lparr>fieldIter := fieldIter row + word_of_nat n\<rparr>))) \<and>
   (unat (row_fields row) - unat (fieldIter row) < n \<longrightarrow>
      shr_n conv n row v =
        Inl (out_of_range (''Row column out of range: '' @ to_string (unat (row_fields row)))))"
proof (induction n arbitrary: row v)
  case 0
  then show ?case by simp
next
  case (Suc n)
  show ?case
  proof (cases "fieldIter row < row_fields row")
    case True
    let ?row' = "row\<lparr>fieldIter := fieldIter row + 1\<rparr>"
    let ?v' = "conv (row_data row ! unat (fieldIter row)) v"
    have step: "shr_n conv (Suc n) row v = shr_n conv n ?row' ?v'"
      by (simp add: operator_shr_ok [OF True])
    have u: "unat (fieldIter row + 1) = Suc (unat (fieldIter row))"
      using True by (rule unat_succ_below)
    have le: "fieldIter ?row' \<le> row_fields ?row'"
      using True by (simp add: inc_le)
    have lt: "unat (fieldIter row) < unat (row_fields row)"
      using True by (simp add: word_less_nat_alt)
    have upd: "?row'\<lparr>fieldIter := fieldIter ?row' + word_of_nat n\<rparr> =
               row\<lparr>fieldIter := fieldIter row + word_of_nat (Suc n)\<rparr>"
      by (simp add: add.assoc add.commute)
    from Suc.IH [OF le, of ?v'] show ?thesis
      unfolding step upd using u lt by auto
  next
    case False
    then have eq: "fieldIter row = row_fields row"
      using Suc.prems by simp
    then show ?thesis
      by (simp add: operator_shr_fail)
  qed
qed

lemma getNextRow_cursor:
  "getNextRow r row0 = (b, r', row') \<Longrightarrow>
   fieldIter row' = 0 \<and> (\<not> b \<longrightarrow> Row_size row' = 0) \<and> (b \<longrightarrow> origin row')"
  by (auto simp: getNextRow_def mysql_fetch_row_def Row_size_def Let_def word_gt_0
           split: list.splits)

text \<open>
  Claim C10.  The read-and-advance accessor checks its cursor before every read.  On a
  row whose cursor is at the start, the first \<open>size()\<close> applications succeed and leave the
  cursor at their count; any longer run of applications ends in \<open>std::out_of_range\<close>.
  Whatever the row, one application either throws \<open>std::out_of_range\<close>, the cursor being
  at or past the column count, or reads the column under the cursor, which is below the
  column count, and advances by one.  On a default-constructed row the very first
  application throws.  \<open>getNextRow\<close> leaves the cursor of the row it fills at the start, and
  the row it leaves when it returns false has size zero.
\<close>

theorem row_cursor_bounds_checked:
  assumes "fieldIter row = 0"
  shows "(n \<le> unat (Row_size row) \<longrightarrow>
            (\<exists>v'. shr_n conv n row v = Inr (v', row\<lparr>fieldIter := word_of_nat n\<rparr>))) \<and>
         (unat (Row_size row) < n \<longrightarrow>
            shr_n conv n row v =
              Inl (out_of_range (''Row column out of range: '' @ to_string (unat (Row_size row))))) \<and>
         (\<forall>r u. case operator_shr conv r u of
                  Inl e \<Rightarrow> Row_size r \<le> fieldIter r \<and>
                     e = out_of_range (''Row column out of range: '' @ to_string (unat (fieldIter r)))
                | Inr (u', r') \<Rightarrow> fieldIter r < Row_size r \<and>
                     u' = conv (row_data r ! unat (fieldIter r)) u \<and>
                     r' = r\<lparr>fieldIter := fieldIter r + 1\<rparr>) \<and>
         shr_n conv (Suc n) Row_ctor v = Inl (out_of_range ''Row column out of range: 0'') \<and>
         (\<forall>res row0 b res' row'. getNextRow res row0 = (b, res', row') \<longrightarrow>
            fieldIter row' = 0 \<and> (\<not> b \<longrightarrow> Row_size row' = 0))"
proof -
  have le: "fieldIter row \<le> row_fields row" using assms by simp
  have a: "n \<le> unat (Row_size row) \<longrightarrow>
            (\<exists>v'. shr_n conv n row v = Inr (v', row\<lparr>fieldIter := word_of_nat n\<rparr>))"
    using shr_n_count [OF le, of n conv v] assms by (simp add: Row_size_def)
  have b: "unat (Row_size row) < n \<longrightarrow>
            shr_n conv n row v =
              Inl (out_of_range (''Row column out of range: '' @ to_string (unat (Row_size row))))"
    using shr_n_count [OF le, of n conv v] assms by (simp add: Row_size_def)
  have c: "case operator_shr conv r u of
             Inl e \<Rightarrow> Row_size r \<le> fieldIter r \<and>
                e = out_of_range (''Row column out of range: '' @ to_string (unat (fieldIter r)))
           | Inr (u', r') \<Rightarrow> fieldIter r < Row_size r \<and>
                u' = conv (row_data r ! unat (fieldIter r)) u \<and>
                r' = r\<lparr>fieldIter := fieldIter r + 1\<rparr>" for r u
  proof (cases "fieldIter r < row_fields r")
    case True
    then show ?thesis by (simp add: operator_shr_ok Row_size_def)
  next
    case False
    then have "row_fields r \<le> fieldIter r" by simp
    then show ?thesis by (simp add: operator_shr_fail Row_size_def)
  qed
  have d: "shr_n conv (Suc n) Row_ctor v = Inl (out_of_range ''Row column out of range: 0'')"
    by (simp add: operator_shr_fail Row_ctor_def to_string.simps digit_char_def)
  have e: "fieldIter row' = 0 \<and> (\<not> b \<longrightarrow> Row_size row' = 0)"
    if "getNextRow res row0 = (b, res', row')" for res row0 b res' row'
    using getNextRow_cursor [OF that] by simp
  from a b c d e show ?thesis by blast
qed

text \<open>
  A row of two columns: two applications succeed (the second column is NULL and leaves
  the destination as the first left it), the third throws.
\<close>

theorem row_cursor_bounds_checked_witness:
  "fieldIter \<lparr>origin = True, row_data = [Some ''219'', None], row_fields = 2, fieldIter = 0\<rparr> = 0 \<and>
   shr_n convertResult_string 2
     \<lparr>origin = True, row_data = [Some ''219'', None], row_fields = 2, fieldIter = 0\<rparr> ''x'' =
     Inr (''219'', \<lparr>origin = True, row_data = [Some ''219'', None], row_fields = 2, fieldIter = 2\<rparr>) \<and>
   shr_n convertResult_string 3
     \<lparr>origin = True, row_data = [Some ''219'', None], row_fields = 2, fieldIter = 0\<rparr> ''x'' =
     Inl (out_of_range ''Row column out of range: 2'')"
proof -
  let ?row = "\<lparr>origin = True, row_data = [Some ''219'', None], row_fields = 2, fieldIter = 0\<rparr>"
  have h: "fieldIter ?row = 0" by simp
  have s: "unat (Row_size ?row) = 2" by (simp add: Row_size_def)
  have t: "to_string 2 = ''2''" by (simp add: to_string.simps digit_char_def)
  have "shr_n convertResult_string 3 ?row ''x'' =
          Inl (out_of_range (''Row column out of range: '' @ to_string (unat (Row_size ?row))))"
    using row_cursor_bounds_checked [OF h, of 3 convertResult_string "''x''"] s by simp
  moreover have "shr_n convertResult_string 2 ?row ''x'' =
     Inr (''219'', \<lparr>origin = True, row_data = [Some ''219'', None], row_fields = 2, fieldIter = 2\<rparr>)"
    by code_simp
  ultimately show ?thesis using s t by simp
qed

section \<open>The payload\<close>

lemma payload_fold:
  "fold (\<lambda>queryInfo query.
           (let query1 = query @ fst queryInfo
            in if snd queryInfo then query1 @ ''SHOW META; '' else query1)) qs acc =
   acc @ concat (map (\<lambda>(statement, meta). statement @ (if meta then ''SHOW META; '' else [])) qs)"
  by (induction qs arbitrary: acc) (auto simp: Let_def)

text \<open>
  Claim C3.  The payload of a batch is the concatenation, in registration order, of each
  statement followed by \<open>SHOW META; \<close> when its flag is set, and nothing else; adding an
  entry appends its text (and the SHOW META statement, if flagged) to the payload.
\<close>

theorem getQueryString_concat:
  "getQueryString d =
     concat (map (\<lambda>(statement, meta). statement @ (if meta then ''SHOW META; '' else []))
                 (queries d)) \<and>
   getQueryString (addQuery d query meta) =
     getQueryString d @ query @ (if meta then ''SHOW META; '' else [])"
  unfolding getQueryString_def by (simp add: payload_fold addQuery_def)

section \<open>Which exceptions the retrieval of results throws\<close>

lemma Result_ctor_error:
  "Result_ctor T c = (Inl e, c') \<Longrightarrow> \<exists>msg. e = Exception msg"
  by (auto simp: Result_ctor_def split: prod.splits option.splits)

lemma nextResult_error:
  "nextResult T d = (Inl e, d') \<Longrightarrow> \<exists>msg. e = Exception msg"
  by (auto simp: nextResult_def Let_def split: if_splits prod.splits dest: Result_ctor_error)

lemma operator_shr_error:
  "operator_shr conv row v = Inl e \<Longrightarrow> \<exists>msg. e = out_of_range msg"
  by (auto simp: operator_shr_def checkBounds_def split: if_splits)

lemma MetaReader_rows_error:
  "MetaReader_rows r row vals = Inl e \<Longrightarrow> \<exists>msg. e = out_of_range msg"
proof (induction r row vals rule: MetaReader_rows.induct)
  case (1 r row vals)
  obtain b r' row' where g: "getNextRow r row = (b, r', row')"
    by (cases "getNextRow r row") auto
  show ?case
  proof (cases b)
    case False
    with g "1.prems" show ?thesis
      by (subst (asm) MetaReader_rows.simps) simp
  next
    case True
    note b = True
    show ?thesis
    proof (cases "operator_shr convertResult_string row' []")
      case (Inl e1)
      with g b "1.prems" have "e = e1"
        by (subst (asm) MetaReader_rows.simps) simp
      with Inl show ?thesis by (auto dest: operator_shr_error)
    next
      case (Inr kv)
      obtain key row1 where kv: "kv = (key, row1)" by (cases kv)
      show ?thesis
      proof (cases "operator_shr convertResult_string row1 []")
        case (Inl e2)
        with g b Inr kv "1.prems" have "e = e2"
          by (subst (asm) MetaReader_rows.simps) simp
        with Inl show ?thesis by (auto dest: operator_shr_error)
      next
        case inr2: (Inr vv)
        obtain val row2 where vv: "vv = (val, row2)" by (cases vv)
        have rec: "MetaReader_rows r' row2 (if key \<noteq> [] then emplace vals key val else vals) = Inl e"
          using g b Inr kv inr2 vv "1.prems"
          by (subst (asm) MetaReader_rows.simps) simp
        have bT: "b = True" using b by simp
        show ?thesis
          using "1.IH" [OF g [symmetric] bT refl Inr [unfolded kv] refl inr2 [unfolded vv] refl rec] .
      qed
    qed
  qed
qed

lemma addMeta_error:
  "addMeta r m = Inl e \<Longrightarrow> \<exists>msg. e = out_of_range msg"
  by (auto simp: addMeta_def MetaReader_ctor_def split: option.splits sum.splits
           dest: MetaReader_rows_error)

lemma fill_loop_error:
  "fill_loop T es q resp = (Inl e, q', resp') \<Longrightarrow> \<not> is_timeout e"
proof (induction es arbitrary: q resp)
  case Nil
  then show ?case by simp
next
  case (Cons a es)
  from Cons.prems show ?case
    by (auto split: prod.splits sum.splits if_splits simp: is_timeout_def
             dest!: nextResult_error addMeta_error Cons.IH)
qed

lemma Response_Query_error:
  "Response_Query T q = (Inl e, q') \<Longrightarrow> \<not> is_timeout e"
  by (auto simp: Response_Query_def fill_def split: prod.splits sum.splits dest: fill_loop_error)

section \<open>The synchronous dispatch\<close>

text \<open>
  The branch \<open>execute\<close> takes is decided by \<open>status\<close>, the integer \<open>mysql_query\<close> returns for
  the payload: \<open>TimeoutException\<close> exactly when \<open>status\<close> equals \<open>CR_SERVER_GONE_ERROR\<close> or
  \<open>CR_SERVER_LOST\<close>, a plain \<open>Exception\<close> exactly when it is any other nonzero value, and a
  return exactly when it is zero.  The public \<open>Query::execute\<close> throws \<open>TimeoutException\<close>
  exactly when the Query is connected and \<open>status\<close> equals one of the two codes: neither the
  connection check nor the retrieval of the results throws one.
\<close>

lemma execute_status_branches:
  "(let status = fst (mysql_query T (con d) (getQueryString d)) in
     ((\<exists>msg d'. execute T d = (Inl (TimeoutException msg), d')) =
        (status = CR_SERVER_GONE_ERROR \<or> status = CR_SERVER_LOST)) \<and>
     ((\<exists>msg d'. execute T d = (Inl (Exception msg), d')) =
        (status \<noteq> 0 \<and> status \<noteq> CR_SERVER_GONE_ERROR \<and> status \<noteq> CR_SERVER_LOST)) \<and>
     ((\<exists>d'. execute T d = (Inr (), d')) = (status = 0)) \<and>
     ((\<exists>msg d'. Query_execute T d = (Inl (TimeoutException msg), d')) =
        (isConnected d \<and> (status = CR_SERVER_GONE_ERROR \<or> status = CR_SERVER_LOST))))"
proof -
  obtain status c' where q: "mysql_query T (con d) (getQueryString d) = (status, c')"
    by (cases "mysql_query T (con d) (getQueryString d)")
  have nz: "CR_SERVER_GONE_ERROR \<noteq> 0" "CR_SERVER_LOST \<noteq> 0"
    by (simp_all add: CR_SERVER_GONE_ERROR_def CR_SERVER_LOST_def)
  have a: "(\<exists>msg d'. execute T d = (Inl (TimeoutException msg), d')) =
        (status = CR_SERVER_GONE_ERROR \<or> status = CR_SERVER_LOST)"
    using q nz by (auto simp: execute_def Let_def)
  have b: "(\<exists>msg d'. execute T d = (Inl (Exception msg), d')) =
        (status \<noteq> 0 \<and> status \<noteq> CR_SERVER_GONE_ERROR \<and> status \<noteq> CR_SERVER_LOST)"
    using q nz by (auto simp: execute_def Let_def)
  have c: "(\<exists>d'. execute T d = (Inr (), d')) = (status = 0)"
    using q nz by (auto simp: execute_def Let_def)
  have d: "(\<exists>msg d'. Query_execute T d = (Inl (TimeoutException msg), d')) =
        (isConnected d \<and> (status = CR_SERVER_GONE_ERROR \<or> status = CR_SERVER_LOST))"
  proof (cases "isConnected d")
    case False
    then show ?thesis by (simp add: Query_execute_def)
  next
    case True
    show ?thesis
    proof (cases "status = 0")
      case z: True
      then have ex: "execute T d = (Inr (), d\<lparr>con := c'\<rparr>)"
        using q by (simp add: execute_def Let_def)
      have "\<not> (\<exists>msg d'. Query_execute T d = (Inl (TimeoutException msg), d'))"
        using True ex
        by (auto simp: Query_execute_def is_timeout_def split: prod.splits
                 dest!: Response_Query_error)
      then show ?thesis using z nz True by auto
    next
      case nzs: False
      then show ?thesis using q True nz
        by (auto simp: Query_execute_def execute_def Let_def)
    qed
  qed
  from a b c d q show ?thesis by (simp add: Let_def)
qed

text \<open>
  \<open>execute\<close> does not consult the client error code: whatever \<open>mysql_errno\<close> would report,
  its outcome is the same.  When \<open>mysql_query\<close> returns a nonzero status other than the two
  codes, the exception is a plain \<open>Exception\<close>.
\<close>

lemma execute_errno_unused:
  "execute (T\<lparr>mysql_errno := f\<rparr>) d = execute T d"
  by (simp add: execute_def Let_def split: prod.splits)

lemma execute_failure_status:
  "mysql_query T (con d) (getQueryString d) = (status, c') \<Longrightarrow> status \<noteq> 0 \<Longrightarrow>
   status \<noteq> CR_SERVER_GONE_ERROR \<Longrightarrow> status \<noteq> CR_SERVER_LOST \<Longrightarrow>
   execute T d = (Inl (Exception (mysql_error T (Some c'))), d\<lparr>con := c'\<rparr>) \<and>
   Query_execute T d =
     (if isConnected d then (Inl (Exception (mysql_error T (Some c'))), clear (d\<lparr>con := c'\<rparr>))
      else (Inl (Exception ''No connection established!''), d))"
  by (simp add: execute_def Query_execute_def Response_Query_def)

text \<open>
  Claim C8 at a connection that was lost.  \<open>mysql_query\<close> reports the failure by returning
  1, and the client error code of the handle is \<open>CR_SERVER_LOST\<close>.  \<open>execute\<close> compares the
  returned 1 with the two codes, finds neither, and throws a plain \<open>Exception\<close>, and so does
  \<open>Query::execute\<close>: no \<open>TimeoutException\<close> is thrown for the lost connection.
\<close>

theorem execute_lost_connection_not_timeout:
  "isConnected lost_connection \<and>
   mysql_query scripted (con lost_connection) (getQueryString lost_connection) =
     (1, con lost_connection) \<and>
   mysql_errno scripted (con lost_connection) = CR_SERVER_LOST \<and>
   execute scripted lost_connection = (Inl (Exception []), lost_connection) \<and>
   Query_execute scripted lost_connection = (Inl (Exception []), clear lost_connection)"
  by code_simp

section \<open>Retrieving the next result set\<close>

text \<open>
  Claim C4, as stated, fails: the first call after a dispatch does not return a result set
  unconditionally.  The constructor of Result throws when \<open>mysql_store_result\<close> yields no
  result set, as it does for a statement that returns none.
\<close>

theorem nextResult_first_call_counterexample:
  "firstToRetrieve \<lparr>con = reply [None], connected = True, firstToRetrieve = True,
                    queries = [(''DELETE FROM rt WHERE id = 1;'', False)]\<rparr> \<and>
   nextResult scripted
     \<lparr>con = reply [None], connected = True, firstToRetrieve = True,
      queries = [(''DELETE FROM rt WHERE id = 1;'', False)]\<rparr> =
   (Inl (Exception ''mysql_store_result error: ''),
     \<lparr>con = reply [None], connected = True, firstToRetrieve = False,
      queries = [(''DELETE FROM rt WHERE id = 1;'', False)]\<rparr>)"
  by (simp add: nextResult_def Result_ctor_def scripted_def reply_def)

text \<open>
  Claim C4, amended.  The first call after a dispatch does not consult the more-results
  signal: it returns the result set \<open>mysql_store_result\<close> yields, and throws the
  Exception \<open>mysql_store_result error: ...\<close> when there is none.  A later call returns a
  result set only when the more-results signal holds, and throws the Exception
  \<open>No result returned\<close> when it does not; when the signal holds, \<open>mysql_next_result\<close>
  returns zero and a result set can be stored, that result set is returned.  Both the
  asynchronous send and \<open>clear\<close> make the next call a first call.
\<close>

theorem nextResult_first_then_signal:
  "(firstToRetrieve d \<longrightarrow>
      (\<forall>res c'. mysql_store_result T (con d) = (Some res, c') \<longrightarrow>
         (\<exists>r. nextResult T d = (Inr r, d\<lparr>firstToRetrieve := False, con := c'\<rparr>) \<and>
              result r = res)) \<and>
      (\<forall>c'. mysql_store_result T (con d) = (None, c') \<longrightarrow>
         nextResult T d =
           (Inl (Exception (''mysql_store_result error: '' @ mysql_error T (Some c'))),
            d\<lparr>firstToRetrieve := False, con := c'\<rparr>))) \<and>
   (\<not> firstToRetrieve d \<longrightarrow>
      (\<forall>r d'. nextResult T d = (Inr r, d') \<longrightarrow> mysql_more_results T (con d)) \<and>
      (\<not> mysql_more_results T (con d) \<longrightarrow>
         nextResult T d = (Inl (Exception ''No result returned''), d)) \<and>
      (\<forall>c1 res c'. mysql_more_results T (con d) \<and> mysql_next_result T (con d) = (0, c1) \<and>
          mysql_store_result T c1 = (Some res, c') \<longrightarrow>
         (\<exists>r. nextResult T d = (Inr r, d\<lparr>con := c'\<rparr>) \<and> result r = res))) \<and>
   firstToRetrieve (snd (asyncExecute T d)) \<and> firstToRetrieve (clear d)"
  by (auto simp: nextResult_def Result_ctor_def asyncExecute_def clear_def Let_def
           split: prod.splits option.splits if_splits)

text \<open>
  A reply of one result set: the first call returns it, the second finds no more results.
\<close>

theorem nextResult_first_then_signal_witness:
  "firstToRetrieve \<lparr>con = reply [Some idx_test_rows], connected = True, firstToRetrieve = True,
                    queries = [(''SELECT * FROM idx_test;'', True)]\<rparr> \<and>
   (\<exists>r. nextResult scripted
          \<lparr>con = reply [Some idx_test_rows], connected = True, firstToRetrieve = True,
           queries = [(''SELECT * FROM idx_test;'', True)]\<rparr> =
        (Inr r, \<lparr>con = reply [Some idx_test_rows], connected = True, firstToRetrieve = False,
                 queries = [(''SELECT * FROM idx_test;'', True)]\<rparr>) \<and>
        result r = idx_test_rows) \<and>
   \<not> mysql_more_results scripted (reply [Some idx_test_rows]) \<and>
   nextResult scripted
     \<lparr>con = reply [Some idx_test_rows], connected = True, firstToRetrieve = False,
      queries = [(''SELECT * FROM idx_test;'', True)]\<rparr> =
   (Inl (Exception ''No result returned''),
    \<lparr>con = reply [Some idx_test_rows], connected = True, firstToRetrieve = False,
      queries = [(''SELECT * FROM idx_test;'', True)]\<rparr>)"
proof -
  let ?d0 = "\<lparr>con = reply [Some idx_test_rows], connected = True, firstToRetrieve = True,
              queries = [(''SELECT * FROM idx_test;'', True)]\<rparr>"
  let ?d1 = "\<lparr>con = reply [Some idx_test_rows], connected = True, firstToRetrieve = False,
              queries = [(''SELECT * FROM idx_test;'', True)]\<rparr>"
  have f0: "firstToRetrieve ?d0" by simp
  have s0: "mysql_store_result scripted (con ?d0) = (Some idx_test_rows, reply [Some idx_test_rows])"
    by (simp add: scripted_def reply_def)
  have upd: "?d0\<lparr>firstToRetrieve := False, con := reply [Some idx_test_rows]\<rparr> = ?d1" by simp
  have a: "\<exists>r. nextResult scripted ?d0 = (Inr r, ?d1) \<and> result r = idx_test_rows"
    using nextResult_first_then_signal [of ?d0 scripted] f0 s0 unfolding upd [symmetric] by blast
  have f1: "\<not> firstToRetrieve ?d1" by simp
  have m1: "\<not> mysql_more_results scripted (con ?d1)" by (simp add: scripted_def reply_def)
  have b: "nextResult scripted ?d1 = (Inl (Exception ''No result returned''), ?d1)"
    using nextResult_first_then_signal [of ?d1 scripted] f1 m1 by blast
  from f0 a m1 b show ?thesis by simp
qed

section \<open>Columns by index and by name\<close>

lemma assign_keys: "fst ` set (assign m k v) = insert k (fst ` set m)"
  by (induction m k v rule: assign.induct) auto

lemma fold_assign_keys:
  "fst ` set (fold (\<lambda>i ix. assign ix (fs ! i) (g i)) is ix) =
   fst ` set ix \<union> (\<lambda>i. fs ! i) ` set is"
  by (induction "is" arbitrary: ix) (auto simp: assign_keys)

lemma initialize_keys:
  "length fs = unat n \<Longrightarrow> initialize ix (Some fs) n = Inr ix' \<Longrightarrow>
   fst ` set ix' = fst ` set ix \<union> set fs"
proof -
  assume len: "length fs = unat n" and i: "initialize ix (Some fs) n = Inr ix'"
  have "(\<lambda>i. fs ! i) ` set [0..<unat n] = set fs"
    using nth_image [of "length fs" fs] len by simp
  moreover have "ix' = fold (\<lambda>i ix. assign ix (fs ! i) (word_of_nat i)) [0..<unat n] ix"
    using i by (simp add: initialize_def)
  ultimately show ?thesis
    by (simp only: fold_assign_keys)
qed

lemma getFieldIndex_absent:
  "field \<notin> fst ` set ix \<Longrightarrow>
   getFieldIndex ix field = Inl (out_of_range (''No such field in result set: '' @ field))"
proof -
  assume "field \<notin> fst ` set ix"
  then have "map_of ix field = None" by (simp add: map_of_eq_None_iff)
  then show ?thesis by (simp add: getFieldIndex_def)
qed

lemma getColumnIndex_absent:
  assumes wf: "has_columns r" and absent: "fieldName \<notin> set (column_names r)"
  shows "\<exists>r'. getColumnIndex r fieldName =
               (Inl (out_of_range (''No such field in result set: '' @ fieldName)), r') \<and>
              has_columns r' \<and> column_names r' = column_names r"
proof -
  from wf obtain fs where fi: "fieldInfo r = Some fs" and len: "length fs = unat (res_fields r)"
    and ix: "columnIndex r = [] \<or> initialize [] (Some fs) (res_fields r) = Inr (columnIndex r)"
    by (auto simp: has_columns_def split: option.splits)
  from absent fi have nin: "fieldName \<notin> set fs" by (simp add: column_names_def)
  obtain ix' where init: "initialize [] (Some fs) (res_fields r) = Inr ix'"
    by (simp add: initialize_def)
  have keys': "fst ` set ix' = set fs"
    using initialize_keys [OF len init] by simp
  show ?thesis
  proof (cases "columnIndex r = []")
    case True
    have "getColumnIndex r fieldName =
            (Inl (out_of_range (''No such field in result set: '' @ fieldName)),
             r\<lparr>columnIndex := ix'\<rparr>)"
      using True fi init nin keys'
      by (simp add: getColumnIndex_def ResultIndex_empty_def getFieldIndex_absent)
    moreover have "has_columns (r\<lparr>columnIndex := ix'\<rparr>)"
      using fi len init by (simp add: has_columns_def)
    moreover have "column_names (r\<lparr>columnIndex := ix'\<rparr>) = column_names r"
      by (simp add: column_names_def)
    ultimately show ?thesis by blast
  next
    case False
    with ix have built: "initialize [] (Some fs) (res_fields r) = Inr (columnIndex r)" by simp
    have "fst ` set (columnIndex r) = set fs"
      using initialize_keys [OF len built] by simp
    then have "getColumnIndex r fieldName =
            (Inl (out_of_range (''No such field in result set: '' @ fieldName)), r)"
      using False nin
      by (simp add: getColumnIndex_def ResultIndex_empty_def getFieldIndex_absent)
    with wf show ?thesis by blast
  qed
qed

lemma Result_ctor_has_columns:
  "Result_ctor T c = (Inr r, c') \<Longrightarrow>
   has_columns r = (case field_array (result r) of None \<Rightarrow> False
                    | Some fs \<Rightarrow> length fs = unat (field_count (result r)))"
  by (auto simp: Result_ctor_def has_columns_def mysql_fetch_fields_def mysql_num_fields_def
           split: prod.splits option.splits)

text \<open>
  Claim C9, as stated, fails for a Result whose field array is null: the lookup of a column
  name then throws the Exception of \<open>ResultIndex::initialize\<close>, not \<open>std::out_of_range\<close>.
\<close>

theorem absent_column_counterexample:
  "\<not> has_columns \<lparr>columnIndex = [], metaReader = None, result = idx_test_rows,
                     fieldInfo = None, res_fields = 0\<rparr> \<and>
   ''id'' \<notin> set (column_names \<lparr>columnIndex = [], metaReader = None, result = idx_test_rows,
                     fieldInfo = None, res_fields = 0\<rparr>) \<and>
   fst (getColumnIndex \<lparr>columnIndex = [], metaReader = None, result = idx_test_rows,
                       fieldInfo = None, res_fields = 0\<rparr> ''id'') =
     Inl (Exception ''Cannot initialize result index from null field result'')"
  by (simp add: getColumnIndex_def ResultIndex_empty_def initialize_def has_columns_def
                column_names_def)

text \<open>
  Claim C9, amended.  \<open>Row[index]\<close> throws \<open>std::out_of_range\<close> for every index at or past
  the column count.  For a Result that has column metadata, \<open>getColumnIndex\<close> with a name
  that is not among the column names throws \<open>std::out_of_range\<close> and leaves the Result with
  the same metadata, and so does \<open>getValue\<close> on a Row bound to that Result.
\<close>

theorem out_of_range_access:
  "(Row_size row \<le> index \<longrightarrow>
      operator_index row index =
        Inl (out_of_range (''Row column out of range: '' @ to_string (unat index)))) \<and>
   (has_columns r \<and> fieldName \<notin> set (column_names r) \<longrightarrow>
      (\<exists>r'. getColumnIndex r fieldName =
               (Inl (out_of_range (''No such field in result set: '' @ fieldName)), r') \<and>
            has_columns r' \<and> column_names r' = column_names r) \<and>
      (origin row \<longrightarrow>
         (\<exists>r'. getValue conv T0 row r fieldName =
                  (Inl (out_of_range (''No such field in result set: '' @ fieldName)), r'))))"
proof -
  have a: "Row_size row \<le> index \<longrightarrow>
      operator_index row index =
        Inl (out_of_range (''Row column out of range: '' @ to_string (unat index)))"
    by (simp add: operator_index_def checkBounds_fail Row_size_def)
  have b: "\<exists>r'. getValue conv T0 row r fieldName =
                  (Inl (out_of_range (''No such field in result set: '' @ fieldName)), r')"
    if "has_columns r" "fieldName \<notin> set (column_names r)" "origin row"
    using getColumnIndex_absent [OF that(1) that(2)] that(3)
    by (auto simp: getValue_def)
  from a b getColumnIndex_absent [of r fieldName] show ?thesis by blast
qed

text \<open>
  A row of two columns read at index 2, and the column \<open>int_data\<close> looked up in a result
  set whose columns are \<open>id\<close> and \<open>string_data\<close>.
\<close>

theorem out_of_range_access_witness:
  "Row_size \<lparr>origin = True, row_data = [Some ''219'', None], row_fields = 2, fieldIter = 0\<rparr> \<le> 2 \<and>
   operator_index \<lparr>origin = True, row_data = [Some ''219'', None], row_fields = 2, fieldIter = 0\<rparr> 2 =
     Inl (out_of_range ''Row column out of range: 2'') \<and>
   has_columns \<lparr>columnIndex = [], metaReader = None, result = idx_test_rows,
                fieldInfo = Some [''id'', ''string_data''], res_fields = 2\<rparr> \<and>
   ''int_data'' \<notin> set (column_names \<lparr>columnIndex = [], metaReader = None, result = idx_test_rows,
                fieldInfo = Some [''id'', ''string_data''], res_fields = 2\<rparr>) \<and>
   fst (getColumnIndex \<lparr>columnIndex = [], metaReader = None, result = idx_test_rows,
                fieldInfo = Some [''id'', ''string_data''], res_fields = 2\<rparr> ''int_data'') =
     Inl (out_of_range ''No such field in result set: int_data'') \<and>
   fst (getValue convertResult_string []
          \<lparr>origin = True, row_data = [Some ''219'', None], row_fields = 2, fieldIter = 0\<rparr>
          \<lparr>columnIndex = [], metaReader = None, result = idx_test_rows,
                fieldInfo = Some [''id'', ''string_data''], res_fields = 2\<rparr> ''int_data'') =
     Inl (out_of_range ''No such field in result set: int_data'')"
proof -
  let ?row = "\<lparr>origin = True, row_data = [Some ''219'', None], row_fields = 2, fieldIter = 0\<rparr>"
  let ?r = "\<lparr>columnIndex = [], metaReader = None, result = idx_test_rows,
                fieldInfo = Some [''id'', ''string_data''], res_fields = 2\<rparr>"
  note T = out_of_range_access [of ?row 2 ?r "''int_data''" convertResult_string "[]"]
  have h0: "Row_size ?row \<le> 2" by (simp add: Row_size_def)
  have h1: "has_columns ?r" by (simp add: has_columns_def)
  have h2: "''int_data'' \<notin> set (column_names ?r)" by (simp add: column_names_def)
  have h3: "origin ?row" by simp
  have t: "to_string (unat (2 :: 32 word)) = ''2''" by (simp add: to_string.simps digit_char_def)
  have a: "operator_index ?row 2 =
             Inl (out_of_range (''Row column out of range: '' @ to_string (unat (2 :: 32 word))))"
    using T h0 by blast
  have b: "\<exists>r'. getColumnIndex ?r ''int_data'' =
             (Inl (out_of_range (''No such field in result set: '' @ ''int_data'')), r')"
    using T h1 h2 by blast
  have c: "\<exists>r'. getValue convertResult_string [] ?row ?r ''int_data'' =
             (Inl (out_of_range (''No such field in result set: '' @ ''int_data'')), r')"
    using T h1 h2 h3 by blast
  from a b c h0 h1 h2 t show ?thesis by auto
qed

section \<open>Demultiplexing\<close>

lemma nextResult_fresh:
  "nextResult T d = (Inr r, d') \<Longrightarrow> metaReader r = None \<and> columnIndex r = []"
  by (auto simp: nextResult_def Result_ctor_def Let_def split: if_splits prod.splits option.splits)

lemma nextResult_queries:
  "nextResult T d = (x, d') \<Longrightarrow> queries d' = queries d"
  by (auto simp: nextResult_def Result_ctor_def Let_def split: if_splits prod.splits option.splits)

lemma nextResult_n_fresh:
  "nextResult_n T n d = (Inr raws, d') \<Longrightarrow>
   length raws = n \<and> (\<forall>r \<in> set raws. metaReader r = None)"
proof (induction n arbitrary: d raws)
  case 0
  then show ?case by simp
next
  case (Suc n)
  from Suc.prems obtain r d1 rs where
    a: "nextResult T d = (Inr r, d1)" and b: "nextResult_n T n d1 = (Inr rs, d')" and c: "raws = r # rs"
    by (auto split: prod.splits sum.splits)
  from Suc.IH [OF b] nextResult_fresh [OF a] c show ?case by simp
qed

lemma fill_loop_demux:
  "fill_loop T es q resp0 = (Inr u, q', resp) \<Longrightarrow>
   \<exists>raws rs. nextResult_n T (pulls es) q = (Inr raws, q') \<and>
             results resp = results resp0 @ rs \<and> demultiplexed es raws rs"
proof (induction es arbitrary: q resp0)
  case Nil
  then show ?case by (simp add: pulls_def)
next
  case (Cons entry es)
  from Cons.prems obtain res q1 where n1: "nextResult T q = (Inr res, q1)"
    by (auto split: prod.splits sum.splits)
  show ?case
  proof (cases "snd entry")
    case True
    from Cons.prems n1 True obtain meta q2 res' where
      n2: "nextResult T q1 = (Inr meta, q2)" and am: "addMeta res (Some meta) = Inr res'" and
      rest: "fill_loop T es q2 (resp0\<lparr>results := results resp0 @ [res']\<rparr>) = (Inr u, q', resp)"
      by (auto split: prod.splits sum.splits)
    from Cons.IH [OF rest] obtain raws rs where
      p: "nextResult_n T (pulls es) q2 = (Inr raws, q')" and
      r: "results resp = results resp0 @ [res'] @ rs" and d: "demultiplexed es raws rs"
      by auto
    have np: "pulls (entry # es) = Suc (Suc (pulls es))" using True by (simp add: pulls_def)
    have "nextResult_n T (pulls (entry # es)) q = (Inr (res # meta # raws), q')"
      unfolding np using n1 n2 p by simp
    moreover have "demultiplexed (entry # es) (res # meta # raws) (res' # rs)"
      using True am d by simp
    ultimately show ?thesis using r by (intro exI [of _ "res # meta # raws"] exI [of _ "res' # rs"]) simp
  next
    case False
    from Cons.prems n1 False have
      rest: "fill_loop T es q1 (resp0\<lparr>results := results resp0 @ [res]\<rparr>) = (Inr u, q', resp)"
      by simp
    from Cons.IH [OF rest] obtain raws rs where
      p: "nextResult_n T (pulls es) q1 = (Inr raws, q')" and
      r: "results resp = results resp0 @ [res] @ rs" and d: "demultiplexed es raws rs"
      by auto
    have np: "pulls (entry # es) = Suc (pulls es)" using False by (simp add: pulls_def)
    have "nextResult_n T (pulls (entry # es)) q = (Inr (res # raws), q')"
      unfolding np using n1 p by simp
    moreover have "demultiplexed (entry # es) (res # raws) (res # rs)"
      using False d by simp
    ultimately show ?thesis using r by (intro exI [of _ "res # raws"] exI [of _ "res # rs"]) simp
  qed
qed

lemma addMeta_Some:
  "addMeta r (Some m) = Inr x \<Longrightarrow>
   (\<exists>vals. MetaReader_ctor m = Inr vals \<and> x = r\<lparr>metaReader := Some vals\<rparr>)"
  by (auto simp: addMeta_def split: sum.splits)

lemma demultiplexed_length:
  "demultiplexed es raws rs \<Longrightarrow> length rs = length es \<and> length raws = pulls es"
  by (induction es raws rs rule: demultiplexed.induct)
     (auto simp: pulls_def split: list.splits if_splits)

lemma demultiplexed_meta:
  "demultiplexed es raws rs \<Longrightarrow> \<forall>r \<in> set raws. metaReader r = None \<Longrightarrow> i < length es \<Longrightarrow>
   (metaReader (rs ! i) = None) = (\<not> snd (es ! i))"
proof (induction es raws rs arbitrary: i rule: demultiplexed.induct)
  case (1 raws rs)
  then show ?case by simp
next
  case (2 entry es raws rs)
  show ?case
  proof (cases i)
    case 0
    with "2.prems" show ?thesis
      by (auto split: list.splits if_splits dest!: addMeta_Some)
  next
    case (Suc j)
    with "2.prems" "2.IH" show ?thesis
      by (auto split: list.splits if_splits)
  qed
qed

lemma one_less_word: "(1 :: 32 word) < n \<Longrightarrow> 0 < n"
  by (metis word_gt_0 word_not_simps(1))

lemma MetaReader_rows_fold:
  "1 < res_fields r \<Longrightarrow>
   MetaReader_rows r row vals = Inr (fold merge_row (row_queue (result r)) vals)"
proof (induction "row_queue (result r)" arbitrary: r row vals)
  case Nil
  then have "getNextRow r row =
    (False, r\<lparr>result := result r\<rparr>,
     row\<lparr>row_data := [], origin := False, row_fields := 0, fieldIter := 0\<rparr>)"
    by (simp add: getNextRow_def mysql_fetch_row_def Row_size_def Nil.hyps [symmetric])
  then show ?case
    using Nil.hyps [symmetric] by (subst MetaReader_rows.simps) simp
next
  case (Cons d rest)
  let ?r' = "r\<lparr>result := (result r)\<lparr>row_queue := rest\<rparr>\<rparr>"
  let ?row' = "row\<lparr>row_data := d, origin := True, row_fields := res_fields r, fieldIter := 0\<rparr>"
  have pos: "0 < res_fields r" using Cons.prems by (rule one_less_word)
  have g: "getNextRow r row = (True, ?r', ?row')"
    using pos by (simp add: getNextRow_def mysql_fetch_row_def Row_size_def Cons.hyps(2) [symmetric])
  have s1: "operator_shr convertResult_string ?row' [] =
              Inr (convertResult_string (d ! 0) [], ?row'\<lparr>fieldIter := 1\<rparr>)"
    using pos by (simp add: operator_shr_ok)
  have s2: "operator_shr convertResult_string (?row'\<lparr>fieldIter := 1\<rparr>) [] =
              Inr (convertResult_string (d ! 1) [], ?row'\<lparr>fieldIter := 2\<rparr>)"
    using Cons.prems by (simp add: operator_shr_ok)
  have rq: "rest = row_queue (result ?r')" by simp
  have f: "1 < res_fields ?r'" using Cons.prems by simp
  show ?case
    apply (subst MetaReader_rows.simps)
    apply (simp only: g s1 s2 prod.case sum.case bool.case if_True)
    apply (simp only: Cons.hyps(1) [OF rq f])
    apply (simp add: Cons.hyps(2) [symmetric] merge_row_def Let_def)
    done
qed

lemma addMeta_merge:
  "addMeta r (Some m) = Inr x \<Longrightarrow>
   result x = result r \<and>
   (1 < res_fields m \<longrightarrow> metaReader x = Some (fold merge_row (row_queue (result m)) []))"
  by (auto simp: addMeta_def MetaReader_ctor_def MetaReader_rows_fold split: sum.splits)

lemma demultiplexed_position:
  "demultiplexed es raws rs \<Longrightarrow> i < length es \<Longrightarrow>
   (if snd (es ! i)
    then addMeta (raws ! position es i) (Some (raws ! Suc (position es i))) = Inr (rs ! i)
    else rs ! i = raws ! position es i)"
proof (induction es raws rs arbitrary: i rule: demultiplexed.induct)
  case (1 raws rs)
  then show ?case by simp
next
  case (2 entry es raws rs)
  from "2.prems"(1) obtain r raws1 x rs1 where
    raws: "raws = r # raws1" and rs: "rs = x # rs1"
    by (auto split: list.splits)
  show ?case
  proof (cases "snd entry")
    case True
    from "2.prems"(1) raws rs True obtain m raws2 where
      raws1: "raws1 = m # raws2" and am: "addMeta r (Some m) = Inr x" and
      d: "demultiplexed es raws2 rs1"
      by (auto split: list.splits)
    show ?thesis
    proof (cases i)
      case 0
      then show ?thesis using True raws raws1 rs am by (simp add: position_def)
    next
      case (Suc j)
      with "2.prems"(2) have j: "j < length es" by simp
      have p: "position (entry # es) (Suc j) = Suc (Suc (position es j))"
        using True by (simp add: position_def)
      from "2.IH"(1) [OF raws rs True raws1 d j]
      show ?thesis unfolding Suc p raws raws1 rs by simp
    qed
  next
    case False
    from "2.prems"(1) raws rs False have xr: "x = r" and d: "demultiplexed es raws1 rs1"
      by auto
    show ?thesis
    proof (cases i)
      case 0
      then show ?thesis using False raws rs xr by (simp add: position_def)
    next
      case (Suc j)
      with "2.prems"(2) have j: "j < length es" by simp
      have p: "position (entry # es) (Suc j) = Suc (position es j)"
        using False by (simp add: position_def)
      from "2.IH"(2) [OF raws rs False d j]
      show ?thesis unfolding Suc p raws rs by simp
    qed
  qed
qed

lemma fill_loop_complete:
  "nextResult_n T (pulls es) q = (Inr raws, q') \<Longrightarrow> demultiplexed es raws rs \<Longrightarrow>
   fill_loop T es q resp0 = (Inr (), q', resp0\<lparr>results := results resp0 @ rs\<rparr>)"
proof (induction es arbitrary: q raws rs resp0)
  case Nil
  then show ?case by (simp add: pulls_def)
next
  case (Cons entry es)
  from Cons.prems(2) obtain r raws1 x rs1 where
    raws: "raws = r # raws1" and rs: "rs = x # rs1"
    by (auto split: list.splits)
  show ?case
  proof (cases "snd entry")
    case True
    from Cons.prems(2) raws rs True obtain m raws2 where
      raws1: "raws1 = m # raws2" and am: "addMeta r (Some m) = Inr x" and
      d: "demultiplexed es raws2 rs1"
      by (auto split: list.splits)
    have np: "pulls (entry # es) = Suc (Suc (pulls es))" using True by (simp add: pulls_def)
    from Cons.prems(1) [unfolded np] raws raws1 obtain q1 q2 where
      n1: "nextResult T q = (Inr r, q1)" and n2: "nextResult T q1 = (Inr m, q2)" and
      p: "nextResult_n T (pulls es) q2 = (Inr raws2, q')"
      by (auto split: prod.splits sum.splits)
    from Cons.IH [OF p d, of "resp0\<lparr>results := results resp0 @ [x]\<rparr>"]
    show ?thesis using n1 n2 am True rs by simp
  next
    case False
    from Cons.prems(2) raws rs False have xr: "x = r" and d: "demultiplexed es raws1 rs1"
      by auto
    have np: "pulls (entry # es) = Suc (pulls es)" using False by (simp add: pulls_def)
    from Cons.prems(1) [unfolded np] raws obtain q1 where
      n1: "nextResult T q = (Inr r, q1)" and
      p: "nextResult_n T (pulls es) q1 = (Inr raws1, q')"
      by (auto split: prod.splits sum.splits)
    from Cons.IH [OF p d, of "resp0\<lparr>results := results resp0 @ [x]\<rparr>"]
    show ?thesis using n1 False rs xr by simp
  qed
qed

lemma fill_iff:
  "(fill T q resp0 = (Inr (), q', resp)) =
   (\<exists>rs. demux_of T q q' rs \<and> resp = resp0\<lparr>results := results resp0 @ rs\<rparr>)"
proof
  assume f: "fill T q resp0 = (Inr (), q', resp)"
  then obtain raws rs where
    "nextResult_n T (pulls (queries q)) q = (Inr raws, q')"
    "results resp = results resp0 @ rs" "demultiplexed (queries q) raws rs"
    unfolding fill_def getQueries_def by (blast dest: fill_loop_demux)
  then have "demux_of T q q' rs \<and> resp = resp0\<lparr>results := results resp0 @ rs\<rparr>"
    by (simp add: demux_of_def)
  then show "\<exists>rs. demux_of T q q' rs \<and> resp = resp0\<lparr>results := results resp0 @ rs\<rparr>" ..
next
  assume "\<exists>rs. demux_of T q q' rs \<and> resp = resp0\<lparr>results := results resp0 @ rs\<rparr>"
  then obtain rs where d: "demux_of T q q' rs" and
    r: "resp = resp0\<lparr>results := results resp0 @ rs\<rparr>"
    by blast
  from d have "\<exists>raws. nextResult_n T (pulls (queries q)) q = (Inr raws, q') \<and>
                     demultiplexed (queries q) raws rs"
    by (cases "nextResult_n T (pulls (queries q)) q")
       (auto simp: demux_of_def split: sum.splits)
  then show "fill T q resp0 = (Inr (), q', resp)"
    unfolding fill_def getQueries_def using r by (auto simp: fill_loop_complete)
qed

lemma demux_of_pulls:
  "demux_of T q q' rs \<Longrightarrow>
   \<exists>raws. nextResult_n T (pulls (queries q)) q = (Inr raws, q') \<and>
          demultiplexed (queries q) raws rs"
  by (cases "nextResult_n T (pulls (queries q)) q")
     (auto simp: demux_of_def split: sum.splits)

lemma demux_of_facts:
  assumes "demux_of T q q' rs"
  shows "length rs = length (queries q)"
    and "i < length (queries q) \<Longrightarrow> (metaReader (rs ! i) = None) = (\<not> snd (queries q ! i))"
proof -
  from demux_of_pulls [OF assms] obtain raws where
    p: "nextResult_n T (pulls (queries q)) q = (Inr raws, q')" and
    d: "demultiplexed (queries q) raws rs"
    by blast
  from demultiplexed_length [OF d] show "length rs = length (queries q)" by simp
  from nextResult_n_fresh [OF p] have "\<forall>r \<in> set raws. metaReader r = None" by simp
  from demultiplexed_meta [OF d this]
  show "i < length (queries q) \<Longrightarrow> (metaReader (rs ! i) = None) = (\<not> snd (queries q ! i))" .
qed

lemma fill_each_demux:
  "fill_each T qs resp0 = (Inr u, qs', resp) \<Longrightarrow>
   \<exists>parts. resp = resp0\<lparr>results := results resp0 @ concat parts\<rparr> \<and>
           length qs' = length qs \<and>
           list_all2 (\<lambda>(q, q') part. demux_of T q q' part) (zip qs qs') parts \<and>
           length (concat parts) = sum_list (map (\<lambda>q. length (queries q)) qs)"
proof (induction qs arbitrary: resp0 qs')
  case Nil
  then show ?case by simp
next
  case (Cons q qs)
  from Cons.prems obtain q1 resp1 qs1 where
    f: "fill T q resp0 = (Inr (), q1, resp1)" and
    r: "fill_each T qs resp1 = (Inr u, qs1, resp)" and qs': "qs' = q1 # qs1"
    by (auto split: prod.splits sum.splits)
  from f obtain part where
    d: "demux_of T q q1 part" and r1: "resp1 = resp0\<lparr>results := results resp0 @ part\<rparr>"
    unfolding fill_iff by blast
  from Cons.IH [OF r] obtain parts where
    rp: "resp = resp1\<lparr>results := results resp1 @ concat parts\<rparr>" and
    len: "length qs1 = length qs" and
    all: "list_all2 (\<lambda>(q, q') part. demux_of T q q' part) (zip qs qs1) parts" and
    cnt: "length (concat parts) = sum_list (map (\<lambda>q. length (queries q)) qs)"
    by blast
  show ?case
    using d r1 rp len all cnt qs' demux_of_facts(1) [OF d]
    by (intro exI [of _ "part # parts"]) simp
qed

lemma next_n_results:
  "next_n k resp =
   map Some (take k (results resp)) @ replicate (k - length (results resp)) None"
proof (induction k arbitrary: resp)
  case 0
  then show ?case by simp
next
  case (Suc k)
  show ?case
  proof (cases "results resp")
    case Nil
    with Suc.IH [of resp] show ?thesis by (simp add: Response_next_def)
  next
    case (Cons r rs)
    with Suc.IH [of "resp\<lparr>results := rs\<rparr>"] show ?thesis by (simp add: Response_next_def)
  qed
qed


lemma asyncExecute_queries:
  "asyncExecute T d = (x, d') \<Longrightarrow> queries d' = queries d"
  by (auto simp: asyncExecute_def Let_def split: prod.splits if_splits)

lemma waitForAsyncResult_queries:
  "waitForAsyncResult T d = (x, d') \<Longrightarrow> queries d' = queries d"
  by (auto simp: waitForAsyncResult_def Let_def split: prod.splits if_splits)

lemma asyncExecute_each_queries:
  "asyncExecute_each T qs = (x, qs') \<Longrightarrow> map queries qs' = map queries qs"
  by (induction qs arbitrary: x qs')
     (auto split: prod.splits sum.splits dest: asyncExecute_queries)

lemma waitForAsyncResult_each_queries:
  "waitForAsyncResult_each T qs = (x, qs') \<Longrightarrow> map queries qs' = map queries qs"
  by (induction qs arbitrary: x qs')
     (auto split: prod.splits sum.splits dest: waitForAsyncResult_queries)

lemma launch_success:
  "launch T A = (Inr resp, A') \<Longrightarrow>
   \<exists>qs1 qs2 qs3. asyncExecute_each T (workers A) = (Inr (), qs1) \<and>
                 waitForAsyncResult_each T qs1 = (Inr (), qs2) \<and>
                 Response_AsyncQuery T qs2 = (Inr resp, qs3) \<and>
                 A' = finalCleanup (A\<lparr>connections := [], workers := qs3\<rparr>)"
  by (auto simp: launch_def Let_def split: prod.splits sum.splits)

lemma Response_AsyncQuery_demux:
  "Response_AsyncQuery T qs = (Inr resp, qs') \<Longrightarrow>
   \<exists>parts. results resp = concat parts \<and> length qs' = length qs \<and>
           list_all2 (\<lambda>(q, q') part. demux_of T q q' part) (zip qs qs') parts \<and>
           length (results resp) = sum_list (map (\<lambda>q. length (queries q)) qs)"
proof -
  assume "Response_AsyncQuery T qs = (Inr resp, qs')"
  then obtain u where "fill_each T qs \<lparr>results = []\<rparr> = (Inr u, qs', resp)"
    by (auto simp: Response_AsyncQuery_def split: prod.splits sum.splits)
  from fill_each_demux [OF this] show ?thesis by auto
qed

text \<open>
  Claim C1.  When the constructor of the Response succeeds for the connections of a
  round, its queue is the concatenation, connection after connection, of one part per
  connection, and each part is the demultiplexing of that connection's batch: as many
  result sets are pulled as the batch has entries plus flagged entries, in order; each
  entry gets the next one as its Result, and a flagged entry's following result set is
  merged into that Result and is not a Result of its own (the \<open>i\<close>-th Result is made of
  the result set at place \<open>i\<close> plus the number of flagged entries before it, and of the
  one after it when the entry is flagged): the merge leaves the rows of
  the Result alone and, the SHOW META result having at least two columns, sets its map
  to the rows of that result, merged one after the other.  So the queue holds exactly
  one Result per registered entry, in registration order, a Result carries a SHOW META
  map exactly when its entry was flagged, and a successful \<open>launch\<close> delivers as many
  Results as entries were registered on its connections.  For a single Query the
  constructor succeeds exactly when this demultiplexing does.  \<open>k\<close> calls of \<open>next\<close>
  yield the first \<open>k\<close> Results of the queue in order, then the null pointer.
\<close>

theorem response_in_registration_order:
  "(\<forall>qs qs' resp. Response_AsyncQuery T qs = (Inr resp, qs') \<longrightarrow>
      (\<exists>parts. results resp = concat parts \<and> length qs' = length qs \<and>
          list_all2 (\<lambda>(q, q') part. demux_of T q q' part) (zip qs qs') parts \<and>
          length (results resp) = sum_list (map (\<lambda>q. length (queries q)) qs))) \<and>
   (\<forall>q q' resp. (Response_Query T q = (Inr resp, q')) = demux_of T q q' (results resp)) \<and>
   (\<forall>q q' part. demux_of T q q' part \<longrightarrow>
      (\<exists>raws. nextResult_n T (pulls (queries q)) q = (Inr raws, q') \<and>
              demultiplexed (queries q) raws part \<and>
              length raws = length (queries q) + length (filter snd (queries q)) \<and>
              length part = length (queries q) \<and>
              (\<forall>i < length (queries q).
                  (metaReader (part ! i) = None) = (\<not> snd (queries q ! i)) \<and>
                  (if snd (queries q ! i)
                   then addMeta (raws ! position (queries q) i)
                          (Some (raws ! Suc (position (queries q) i))) = Inr (part ! i)
                   else part ! i = raws ! position (queries q) i)))) \<and>
   (\<forall>r m x. addMeta r (Some m) = Inr x \<longrightarrow>
      result x = result r \<and>
      (1 < res_fields m \<longrightarrow>
         metaReader x = Some (fold merge_row (row_queue (result m)) []))) \<and>
   (\<forall>A A' resp. launch T A = (Inr resp, A') \<longrightarrow>
      length (results resp) = sum_list (map (\<lambda>q. length (queries q)) (workers A))) \<and>
   (\<forall>k resp. next_n k resp =
      map Some (take k (results resp)) @ replicate (k - length (results resp)) None)"
proof -
  have b: "(Response_Query T q = (Inr resp, q')) = demux_of T q q' (results resp)" for q q' resp
  proof
    assume "Response_Query T q = (Inr resp, q')"
    then have "fill T q \<lparr>results = []\<rparr> = (Inr (), q', resp)"
      by (auto simp: Response_Query_def split: prod.splits sum.splits)
    then show "demux_of T q q' (results resp)"
      unfolding fill_iff by auto
  next
    assume "demux_of T q q' (results resp)"
    then have "fill T q \<lparr>results = []\<rparr> = (Inr (), q', resp)"
      unfolding fill_iff by (intro exI [of _ "results resp"]) simp
    then show "Response_Query T q = (Inr resp, q')"
      by (simp add: Response_Query_def)
  qed
  have c: "\<exists>raws. nextResult_n T (pulls (queries q)) q = (Inr raws, q') \<and>
              demultiplexed (queries q) raws part \<and>
              length raws = length (queries q) + length (filter snd (queries q)) \<and>
              length part = length (queries q) \<and>
              (\<forall>i < length (queries q).
                  (metaReader (part ! i) = None) = (\<not> snd (queries q ! i)) \<and>
                  (if snd (queries q ! i)
                   then addMeta (raws ! position (queries q) i)
                          (Some (raws ! Suc (position (queries q) i))) = Inr (part ! i)
                   else part ! i = raws ! position (queries q) i))"
    if d: "demux_of T q q' part" for q q' part
  proof -
    from demux_of_pulls [OF d] obtain raws where
      p: "nextResult_n T (pulls (queries q)) q = (Inr raws, q')" and
      dm: "demultiplexed (queries q) raws part"
      by blast
    from demultiplexed_length [OF dm] have "length raws = length (queries q) + length (filter snd (queries q))"
      by (simp add: pulls_def)
    with p dm demux_of_facts [OF d] demultiplexed_position [OF dm] show ?thesis by blast
  qed
  have d: "length (results resp) = sum_list (map (\<lambda>q. length (queries q)) (workers A))"
    if l: "launch T A = (Inr resp, A')" for A A' resp
  proof -
    from launch_success [OF l] obtain qs1 qs2 qs3 where
      s: "asyncExecute_each T (workers A) = (Inr (), qs1)" and
      w: "waitForAsyncResult_each T qs1 = (Inr (), qs2)" and
      r: "Response_AsyncQuery T qs2 = (Inr resp, qs3)"
      by blast
    have "map queries qs2 = map queries (workers A)"
      using asyncExecute_each_queries [OF s] waitForAsyncResult_each_queries [OF w] by simp
    then have "map (\<lambda>q. length (queries q)) qs2 = map (\<lambda>q. length (queries q)) (workers A)"
      by (metis (mono_tags, lifting) list.map_comp comp_apply map_eq_conv)
    with Response_AsyncQuery_demux [OF r] show ?thesis by auto
  qed
  have a: "\<forall>qs qs' resp. Response_AsyncQuery T qs = (Inr resp, qs') \<longrightarrow>
      (\<exists>parts. results resp = concat parts \<and> length qs' = length qs \<and>
          list_all2 (\<lambda>(q, q') part. demux_of T q q' part) (zip qs qs') parts \<and>
          length (results resp) = sum_list (map (\<lambda>q. length (queries q)) qs))"
    using Response_AsyncQuery_demux by blast
  have m: "\<forall>r m x. addMeta r (Some m) = Inr x \<longrightarrow>
      result x = result r \<and>
      (1 < res_fields m \<longrightarrow>
         metaReader x = Some (fold merge_row (row_queue (result m)) []))"
    using addMeta_merge by blast
  from a b c m d next_n_results show ?thesis by blast
qed

text \<open>
  A round of two connections, the first entry flagged: two Results in registration order,
  the first with its SHOW META map; a third call of \<open>next\<close> yields the null pointer.
\<close>

theorem response_in_registration_order_witness:
  "fst (Response_AsyncQuery scripted [with_meta, without_meta]) =
     Inr \<lparr>results = [result_with_meta, result_without_meta]\<rparr> \<and>
   length (results \<lparr>results = [result_with_meta, result_without_meta]\<rparr>) = 2 \<and>
   next_n 3 \<lparr>results = [result_with_meta, result_without_meta]\<rparr> =
     [Some result_with_meta, Some result_without_meta, None]"
proof -
  let ?resp = "\<lparr>results = [result_with_meta, result_without_meta]\<rparr>"
  have e: "fst (Response_AsyncQuery scripted [with_meta, without_meta]) = Inr ?resp"
    by code_simp
  then obtain qs' where
    E: "Response_AsyncQuery scripted [with_meta, without_meta] = (Inr ?resp, qs')"
    by (cases "Response_AsyncQuery scripted [with_meta, without_meta]") auto
  note T = response_in_registration_order [of scripted]
  from T E have "length (results ?resp) =
      sum_list (map (\<lambda>q. length (queries q)) [with_meta, without_meta])"
    by blast
  then have a: "length (results ?resp) = 2"
    by (simp add: with_meta_def without_meta_def)
  from T have "next_n 3 ?resp =
      map Some (take 3 (results ?resp)) @ replicate (3 - length (results ?resp)) None"
    by blast
  then have b: "next_n 3 ?resp = [Some result_with_meta, Some result_without_meta, None]"
    by simp
  from e a b show ?thesis by blast
qed

section \<open>SHOW META values\<close>

text \<open>
  Claim C5.  \<open>getMeta\<close> throws exactly when the Result has no SHOW META map, and then it
  throws the Exception \<open>No SHOW META result.\<close>; with a map that lacks the variable it
  returns the empty string.  Among the Results a successful \<open>fill\<close> pushes, one per entry of
  the batch, \<open>getMeta\<close> throws exactly on those whose entry was not flagged.
\<close>

theorem getMeta_fails_iff_no_meta:
  "((\<exists>e. getMeta r variable = Inl e) = (metaReader r = None)) \<and>
   (metaReader r = None \<longrightarrow> getMeta r variable = Inl (Exception ''No SHOW META result.'')) \<and>
   (\<forall>vals. metaReader r = Some vals \<and> variable \<notin> fst ` set vals \<longrightarrow>
      getMeta r variable = Inr []) \<and>
   (\<forall>T q q' resp0 resp. fill T q resp0 = (Inr (), q', resp) \<longrightarrow>
      (\<exists>rs. results resp = results resp0 @ rs \<and> length rs = length (queries q) \<and>
         (\<forall>i < length (queries q).
            (\<exists>e. getMeta (rs ! i) variable = Inl e) = (\<not> snd (queries q ! i)))))"
proof -
  have a: "(\<exists>e. getMeta r variable = Inl e) = (metaReader r = None)" for r
    by (auto simp: getMeta_def split: option.splits)
  have b: "metaReader r = None \<longrightarrow> getMeta r variable = Inl (Exception ''No SHOW META result.'')"
    by (simp add: getMeta_def)
  have c: "getMeta r variable = Inr []"
    if "metaReader r = Some vals" "variable \<notin> fst ` set vals" for vals
  proof -
    from that(2) have "map_of vals variable = None" by (simp add: map_of_eq_None_iff)
    with that(1) show ?thesis by (simp add: getMeta_def MetaReader_getValue_def)
  qed
  have d: "\<exists>rs. results resp = results resp0 @ rs \<and> length rs = length (queries q) \<and>
         (\<forall>i < length (queries q).
            (\<exists>e. getMeta (rs ! i) variable = Inl e) = (\<not> snd (queries q ! i)))"
    if f: "fill T q resp0 = (Inr (), q', resp)" for T :: "'a mysql_api" and q q' resp0 resp
  proof -
    from f obtain rs where dm: "demux_of T q q' rs" and
      r: "resp = resp0\<lparr>results := results resp0 @ rs\<rparr>"
      unfolding fill_iff by blast
    from r have "results resp = results resp0 @ rs" by simp
    with demux_of_facts [OF dm] a show ?thesis by auto
  qed
  from a [of r] b c d show ?thesis by blast
qed

text \<open>
  The two Results of the round above: \<open>getMeta\<close> throws on the one without a map and
  returns the empty string for a variable the map of the other lacks.
\<close>

theorem getMeta_fails_iff_no_meta_witness:
  "metaReader result_without_meta = None \<and>
   getMeta result_without_meta ''total'' = Inl (Exception ''No SHOW META result.'') \<and>
   metaReader result_with_meta =
     Some [(''total'', ''2''), (''total_found'', ''2''), (''time'', ''0.000'')] \<and>
   ''unknown meta field'' \<notin>
     fst ` set [(''total'', ''2''), (''total_found'', ''2''), (''time'', ''0.000'')] \<and>
   getMeta result_with_meta ''unknown meta field'' = Inr []"
proof -
  have m0: "metaReader result_without_meta = None" by (simp add: result_without_meta_def)
  have m1: "metaReader result_with_meta =
     Some [(''total'', ''2''), (''total_found'', ''2''), (''time'', ''0.000'')]"
    by (simp add: result_with_meta_def)
  have k: "''unknown meta field'' \<notin>
     fst ` set [(''total'', ''2''), (''total_found'', ''2''), (''time'', ''0.000'')]"
    by simp
  have a: "getMeta result_without_meta ''total'' = Inl (Exception ''No SHOW META result.'')"
    using getMeta_fails_iff_no_meta [of result_without_meta "''total''"] m0 by blast
  have b: "getMeta result_with_meta ''unknown meta field'' = Inr []"
    using getMeta_fails_iff_no_meta [of result_with_meta "''unknown meta field''"] m1 k by blast
  from m0 m1 k a b show ?thesis by blast
qed

section \<open>The pool of connections\<close>












section \<open>A round that fails\<close>

text \<open>
  When the send loop or the wait loop of \<open>launch\<close> throws, the exception reaches the caller,
  no Response exists, and the AsyncQuery is left with neither idle connections nor
  connections of the round: all of them are destroyed.  When the constructor of the
  Response throws, the exception reaches the caller and no Response exists, but the scope
  guard clears the connections of the round and pushes them on the idle queue.
\<close>

lemma launch_send_failure:
  "asyncExecute_each T (workers A) = (Inl e, qs1) \<Longrightarrow>
   launch T A = (Inl e, A\<lparr>connections := [], workers := []\<rparr>)"
  by (simp add: launch_def)

lemma launch_wait_failure:
  "asyncExecute_each T (workers A) = (Inr (), qs1) \<Longrightarrow>
   waitForAsyncResult_each T qs1 = (Inl e, qs2) \<Longrightarrow>
   launch T A = (Inl e, A\<lparr>connections := [], workers := []\<rparr>)"
  by (simp add: launch_def)

lemma launch_demux_failure:
  "asyncExecute_each T (workers A) = (Inr (), qs1) \<Longrightarrow>
   waitForAsyncResult_each T qs1 = (Inr (), qs2) \<Longrightarrow>
   Response_AsyncQuery T qs2 = (Inl e, qs3) \<Longrightarrow>
   launch T A = (Inl e, A\<lparr>connections := map clear qs3, workers := []\<rparr>)"
  by (simp add: launch_def finalCleanup_def)

text \<open>
  Claim C2 at a round of two connections whose sends and waits succeed, one of them with
  a statement that yields no result set.  With that connection second, the constructor of
  the Response throws after the first connection has been demultiplexed; \<open>launch\<close> throws,
  no Response exists, and both connections are idle connections of the pool afterwards.
  With that connection first, the constructor throws before anything is pulled off the
  other connection, which goes back to the pool with its whole reply unread.
\<close>

theorem launch_demux_failure_keeps_connections:
  "asyncExecute_each scripted [with_meta, delete_worker] = (Inr (), [with_meta, delete_worker]) \<and>
   waitForAsyncResult_each scripted [with_meta, delete_worker] =
     (Inr (), [with_meta, delete_worker]) \<and>
   Response_AsyncQuery scripted [with_meta, delete_worker] =
     (Inl (Exception ''mysql_store_result error: ''),
      [with_meta_read, delete_worker\<lparr>firstToRetrieve := False\<rparr>]) \<and>
   launch scripted (pool [] [with_meta, delete_worker]) =
     (Inl (Exception ''mysql_store_result error: ''),
      pool [clear with_meta_read, clear delete_worker] []) \<and>
   launch scripted (pool [] [delete_worker, with_meta]) =
     (Inl (Exception ''mysql_store_result error: ''),
      pool [clear delete_worker, clear with_meta] []) \<and>
   replies (con (clear with_meta)) = [Some idx_test_rows, Some show_meta_rows]"
  by code_simp

section \<open>Decoding\<close>


lemma operator_shr_null:
  "fieldIter row < row_fields row \<Longrightarrow> row_data row ! unat (fieldIter row) = None \<Longrightarrow>
   conv None v = v \<Longrightarrow>
   operator_shr conv row v = Inr (v, row\<lparr>fieldIter := fieldIter row + 1\<rparr>)"
  by (simp add: operator_shr_ok)














end
